theory Spec2Isabelle
  imports Complex_Main "HOL-Library.Sublist"
begin

section \<open>BuildWatchDog: a shallow embedding of buildwatchdog.py\<close>

text \<open>
  The program polls the status of one AWS CodeBuild build through the AWS CLI, keeps a
  log of events, renders a dashboard and sends desktop notifications.  Everything the
  program does to the outside world is recorded here as a value: the outcome of the
  external command and the user's interrupt are inputs, and console output, fetches,
  notifications, dashboard updates and pauses are appended to a list of effects.
\<close>

subsection \<open>Python strings\<close>

text \<open>\<open>str.lower\<close> and \<open>str.strip\<close>, on ASCII text.\<close>

definition lower_char :: "char \<Rightarrow> char" where
  "lower_char c =
     (case map_of (zip ''ABCDEFGHIJKLMNOPQRSTUVWXYZ'' ''abcdefghijklmnopqrstuvwxyz'') c of
        Some d \<Rightarrow> d
      | None \<Rightarrow> c)"

definition lower :: "string \<Rightarrow> string" where
  "lower s = map lower_char s"

definition isspace :: "char \<Rightarrow> bool" where
  "isspace c \<longleftrightarrow>
     c \<in> set [CHR 0x09, CHR 0x0A, CHR 0x0B, CHR 0x0C, CHR 0x0D,
               CHR 0x1C, CHR 0x1D, CHR 0x1E, CHR 0x1F, CHR '' '']"

definition strip :: "string \<Rightarrow> string" where
  "strip s = rev (dropWhile isspace (rev (dropWhile isspace s)))"

text \<open>\<open>needle in haystack\<close> on strings is \<^const>\<open>sublist\<close>: a contiguous part.\<close>

definition py_in :: "string \<Rightarrow> string \<Rightarrow> bool" where
  "py_in needle haystack \<longleftrightarrow> sublist needle haystack"

subsection \<open>Decoded JSON and the Python operations applied to it\<close>

text \<open>
  What \<open>json.loads\<close> returns.  \<open>JNull\<close> is Python's \<open>None\<close>.  A number is kept as a
  rational: the code only tests numbers for truth (zero or not); NaN and the infinities,
  which \<open>json.loads\<close> accepts, behave as any non-zero number.  An object is a dict,
  written as an association list.
\<close>

datatype json =
    JNull
  | JBool bool
  | JNumber rat
  | JString string
  | JArray "json list"
  | JObject "(string \<times> json) list"

text \<open>
  Exceptions of class \<open>Exception\<close>; \<open>MarkupError\<close> is the one of the rich library.
  \<open>KeyboardInterrupt\<close> is not among them; it is an input of the monitor loop (see
  \<open>Interrupt\<close> below).
\<close>

datatype py_exception =
    TimeoutExpired
  | JSONDecodeError
  | FileNotFoundError
  | AttributeError
  | KeyError
  | IndexError
  | TypeError
  | ValueError
  | OverflowError
  | OSError
  | MarkupError
  | OtherException string

text \<open>Truth value of a Python object, as tested by \<open>not x\<close>.\<close>

fun py_truthy :: "json \<Rightarrow> bool" where
  "py_truthy JNull = False"
| "py_truthy (JBool b) = b"
| "py_truthy (JNumber n) = (n \<noteq> 0)"
| "py_truthy (JString s) = (s \<noteq> [])"
| "py_truthy (JArray xs) = (xs \<noteq> [])"
| "py_truthy (JObject kvs) = (kvs \<noteq> [])"

text \<open>\<open>data.get(key)\<close>: only a dict has the method; a missing key gives \<open>None\<close>.\<close>

fun py_get :: "json \<Rightarrow> string \<Rightarrow> py_exception + json" where
  "py_get (JObject kvs) key = Inr (case map_of kvs key of None \<Rightarrow> JNull | Some v \<Rightarrow> v)"
| "py_get _ key = Inl AttributeError"

text \<open>\<open>data[key]\<close> with a string key.\<close>

fun py_item :: "json \<Rightarrow> string \<Rightarrow> py_exception + json" where
  "py_item (JObject kvs) key = (case map_of kvs key of None \<Rightarrow> Inl KeyError | Some v \<Rightarrow> Inr v)"
| "py_item _ key = Inl TypeError"

text \<open>
  \<open>x[0]\<close>: the first element of a list, the first character of a string; a dict decoded
  from JSON has string keys only, so the key \<open>0\<close> is missing.
\<close>

fun py_index0 :: "json \<Rightarrow> py_exception + json" where
  "py_index0 (JArray []) = Inl IndexError"
| "py_index0 (JArray (x # xs)) = Inr x"
| "py_index0 (JString []) = Inl IndexError"
| "py_index0 (JString (c # cs)) = Inr (JString [c])"
| "py_index0 (JObject kvs) = Inl KeyError"
| "py_index0 _ = Inl TypeError"

subsection \<open>AWSCLIWrapper\<close>

text \<open>
  What \<open>subprocess.run\<close> does: it returns a completed process with an exit code and the
  two captured texts, or it raises.
\<close>

datatype proc_outcome =
    Completed (returncode: int) (stdout: string) (stderr: string)
  | Raised py_exception

text \<open>The lines that \<open>get_build_info\<close> prints on the console, one constructor each.\<close>

datatype diagnostic =
    CLI_not_found              \<comment> \<open>Error: AWS CLI not found. Please install AWS CLI.\<close>
  | Invalid_credentials        \<comment> \<open>Error: Invalid AWS credentials. Please configure AWS CLI.\<close>
  | Credentials_expired        \<comment> \<open>Error: AWS credentials expired. Please refresh your credentials.\<close>
  | CLI_error string           \<comment> \<open>AWS CLI Error: \<open>error_msg\<close>\<close>
  | Build_not_found string     \<comment> \<open>Warning: Build ID \<open>build_id\<close> not found.\<close>
  | Request_timed_out          \<comment> \<open>Error: AWS CLI request timed out. Check your network connection.\<close>
  | Invalid_response           \<comment> \<open>Error: Invalid response from AWS CLI.\<close>
  | CLI_not_installed          \<comment> \<open>Error: AWS CLI not installed. Please install it first.\<close>
  | Unexpected_error py_exception  \<comment> \<open>Unexpected error: \<open>str(e)\<close>\<close>

definition base_cmd :: "string option \<Rightarrow> string list" where
  "base_cmd profile =
     (case profile of
        None \<Rightarrow> [''aws'', ''codebuild'']
      | Some p \<Rightarrow> if p = [] then [''aws'', ''codebuild'']
                  else [''aws'', ''codebuild''] @ [''--profile'', p])"

definition cmd :: "string option \<Rightarrow> string \<Rightarrow> string list" where
  "cmd profile build_id = base_cmd profile @ [''batch-get-builds'', ''--ids'', build_id]"

text \<open>The \<open>if\<close>/\<open>elif\<close> chain on the error text of a failed command (lines 69 to 76).\<close>

definition classify_error :: "string \<Rightarrow> diagnostic" where
  "classify_error error_msg =
     (if py_in ''could not be found'' (lower error_msg) then CLI_not_found
      else if py_in ''credentials'' (lower error_msg) then Invalid_credentials
      else if py_in ''expired'' (lower error_msg) then Credentials_expired
      else CLI_error error_msg)"

text \<open>
  \<open>console.print\<close> reads its text as rich markup.  A line that is a literal of the
  source has matching tags and is printed.  A line with text put in from outside (the
  error text of the command, the build id, the text of an exception) is printed only if
  rich accepts the markup that results; \<open>rich line\<close> is the exception it raises
  otherwise, for example \<open>MarkupError\<close> for a closing tag that matches no open tag.
  \<open>Inr\<close> is the list of lines printed, \<open>Inl\<close> the exception.
\<close>

fun interpolated :: "diagnostic \<Rightarrow> bool" where
  "interpolated (CLI_error error_msg) = True"
| "interpolated (Build_not_found build_id) = True"
| "interpolated (Unexpected_error e) = True"
| "interpolated _ = False"

definition console_print ::
  "(diagnostic \<Rightarrow> py_exception option) \<Rightarrow> diagnostic \<Rightarrow> py_exception + diagnostic list" where
  "console_print rich line =
     (if interpolated line
      then (case rich line of Some e \<Rightarrow> Inl e | None \<Rightarrow> Inr [line])
      else Inr [line])"

text \<open>
  The body of the \<open>try\<close> block of \<open>get_build_info\<close>: \<open>Inl\<close> is an exception raised inside
  it, \<open>Inr\<close> the printed diagnostics and the value returned.  \<open>json_loads\<close> stands for the
  library's \<open>json.loads\<close>.
\<close>

definition get_build_info_try ::
  "(diagnostic \<Rightarrow> py_exception option) \<Rightarrow> (string \<Rightarrow> py_exception + json) \<Rightarrow> string \<Rightarrow>
     proc_outcome \<Rightarrow> py_exception + (diagnostic list \<times> json)" where
  "get_build_info_try rich json_loads build_id result =
     (case result of
        Raised e \<Rightarrow> Inl e
      | Completed rc out err \<Rightarrow>
          if rc \<noteq> 0 then
            (case console_print rich (classify_error (strip err)) of
               Inl e \<Rightarrow> Inl e
             | Inr printed \<Rightarrow> Inr (printed, JNull))
          else
            (case json_loads out of
               Inl e \<Rightarrow> Inl e
             | Inr data \<Rightarrow>
                 (case py_get data ''builds'' of
                    Inl e \<Rightarrow> Inl e
                  | Inr builds \<Rightarrow>
                      if \<not> py_truthy builds then
                        (case console_print rich (Build_not_found build_id) of
                           Inl e \<Rightarrow> Inl e
                         | Inr printed \<Rightarrow> Inr (printed, JNull))
                      else
                        (case py_item data ''builds'' of
                           Inl e \<Rightarrow> Inl e
                         | Inr bs \<Rightarrow>
                             (case py_index0 bs of
                                Inl e \<Rightarrow> Inl e
                              | Inr b \<Rightarrow> Inr ([], b))))))"

text \<open>The line that the \<open>except\<close> clause taking the exception prints, clauses in the order of the source.\<close>

fun except_line :: "py_exception \<Rightarrow> diagnostic" where
  "except_line TimeoutExpired = Request_timed_out"
| "except_line JSONDecodeError = Invalid_response"
| "except_line FileNotFoundError = CLI_not_installed"
| "except_line e = Unexpected_error e"

text \<open>
  \<open>get_build_info\<close>: the lines printed, and the value returned (\<open>Inr\<close>; \<open>JNull\<close> is
  \<open>None\<close>) or the exception that leaves the function (\<open>Inl\<close>).  An exception raised by
  the print of an \<open>except\<close> clause is inside no \<open>try\<close> and leaves the function.
\<close>

definition get_build_info ::
  "(diagnostic \<Rightarrow> py_exception option) \<Rightarrow> (string \<Rightarrow> py_exception + json) \<Rightarrow> string \<Rightarrow>
     proc_outcome \<Rightarrow> diagnostic list \<times> (py_exception + json)" where
  "get_build_info rich json_loads build_id result =
     (case get_build_info_try rich json_loads build_id result of
        Inr (printed, v) \<Rightarrow> (printed, Inr v)
      | Inl e \<Rightarrow>
          (case console_print rich (except_line e) of
             Inl e' \<Rightarrow> ([], Inl e')
           | Inr printed \<Rightarrow> (printed, Inr JNull)))"

subsection \<open>Build snapshots as the monitor reads them\<close>

text \<open>
  \<open>BuildWatchDog\<close> sees the fetcher through the values it returns (or the exception it
  lets out, an input of the loop below); the values are of type
  \<open>Optional[Dict]\<close>.  A dict is recorded by the keys the program reads, each present or
  not, with the strings and the list of phases that the AWS CLI documents for them, and
  by the number of its other keys, which matters only for the dict's truth value.
\<close>

record phase =
  phaseType :: "string option"
  phaseStatus :: "string option"

record build_info =
  buildStatus :: "string option"
  projectName :: "string option"
  currentPhase :: "string option"
  phases :: "phase list option"
  other_keys :: nat

text \<open>\<open>d.get(key, default)\<close>, given the entry of the key.\<close>

definition get_default :: "'a option \<Rightarrow> 'a \<Rightarrow> 'a" where
  "get_default entry dflt = (case entry of None \<Rightarrow> dflt | Some v \<Rightarrow> v)"

definition empty_info :: build_info where
  "empty_info = \<lparr>buildStatus = None, projectName = None, currentPhase = None,
                  phases = None, other_keys = 0\<rparr>"

text \<open>\<open>not build_info\<close> holds of \<open>None\<close> and of the empty dict.\<close>

definition truthy :: "build_info option \<Rightarrow> bool" where
  "truthy r \<longleftrightarrow> (case r of None \<Rightarrow> False | Some b \<Rightarrow> b \<noteq> empty_info)"

text \<open>\<open>build_info or {}\<close>: the dict itself when it is true.\<close>

definition or_empty :: "build_info option \<Rightarrow> build_info" where
  "or_empty r = (case r of None \<Rightarrow> empty_info | Some b \<Rightarrow> b)"

subsection \<open>Events, the dashboard and the effects\<close>

record datetime =
  hour :: nat
  minute :: nat
  second :: nat

record build_event =
  timestamp :: datetime
  status :: string
  message :: string

definition two_digits :: "nat \<Rightarrow> string" where
  "two_digits n = [''0123456789'' ! (n div 10 mod 10), ''0123456789'' ! (n mod 10)]"

text \<open>\<open>strftime("%H:%M:%S")\<close>\<close>

definition strftime_HMS :: "datetime \<Rightarrow> string" where
  "strftime_HMS t = two_digits (hour t) @ '':'' @ two_digits (minute t) @ '':'' @ two_digits (second t)"

text \<open>The circles of \<open>status_emoji\<close> and the icons of the phase table, by name.\<close>

datatype emoji = Yellow_circle | Green_circle | Red_circle | Orange_circle | White_circle

datatype phase_icon = Check_green | Hourglass_yellow | Cross_red | Pause_yellow | Circle_dim

datatype timeline_row =
    Phase_row phase_icon string string string
  | No_phase_information

datatype event_row =
    Event_row string string
  | No_events_yet

record panel =
  header_text :: string
  status_icon :: emoji
  status_text :: string
  status_style :: string
  timeline :: "timeline_row list"
  event_table :: "event_row list"
  subtitle_interval :: int

datatype effect =
    Print string               \<comment> \<open>\<open>console.print\<close> of the monitor\<close>
  | Fetch                      \<comment> \<open>a call of \<open>self.aws.get_build_info\<close>\<close>
  | Notify string string       \<comment> \<open>a call of \<open>self.notifier.send\<close>\<close>
  | Display panel              \<comment> \<open>the panel given to \<open>Live\<close> or to \<open>live.update\<close>\<close>
  | Sleep int                  \<comment> \<open>\<open>time.sleep\<close>\<close>

subsection \<open>BuildWatchDog\<close>

text \<open>The fields of the object, and \<open>effects\<close>: what it has done so far, oldest first.\<close>

record watchdog =
  build_id :: string
  interval :: int
  notify_mode :: string
  events :: "build_event list"
  last_status :: "string option"
  project_name :: string
  effects :: "effect list"

definition new_watchdog :: "string \<Rightarrow> int \<Rightarrow> string \<Rightarrow> watchdog" where
  "new_watchdog bid ival mode =
     \<lparr>build_id = bid, interval = ival, notify_mode = mode, events = [],
      last_status = None, project_name = [], effects = []\<rparr>"

definition do_effect :: "effect \<Rightarrow> watchdog \<Rightarrow> watchdog" where
  "do_effect e self = self\<lparr>effects := effects self @ [e]\<rparr>"

definition status_emoji :: "(string \<times> emoji) list" where
  "status_emoji =
     [(''IN_PROGRESS'', Yellow_circle), (''SUCCEEDED'', Green_circle), (''FAILED'', Red_circle),
      (''STOPPED'', Orange_circle), (''FAULT'', Red_circle), (''TIMED_OUT'', Red_circle)]"

text \<open>Lines 173 to 182: the name of a phase and the status shown for it.\<close>

definition phase_name_of :: "phase \<Rightarrow> string" where
  "phase_name_of ph = get_default (phaseType ph) ''Unknown''"

definition resolve_phase_status :: "string \<Rightarrow> phase \<Rightarrow> string" where
  "resolve_phase_status overall ph =
     (if phaseStatus ph = None \<or> phaseStatus ph = Some [] then
        (if phase_name_of ph = ''COMPLETED'' \<and> overall = ''SUCCEEDED'' then ''SUCCEEDED''
         else ''PENDING'')
      else get_default (phaseStatus ph) [])"

text \<open>Lines 184 to 201: icon and style of a phase status.\<close>

definition phase_icon_style :: "string \<Rightarrow> phase_icon \<times> string" where
  "phase_icon_style phase_status =
     (if phase_status = ''SUCCEEDED'' then (Check_green, ''green'')
      else if phase_status = ''IN_PROGRESS'' then (Hourglass_yellow, ''yellow'')
      else if phase_status = ''FAILED'' then (Cross_red, ''red'')
      else if phase_status = ''STOPPED'' then (Pause_yellow, ''yellow'')
      else if phase_status = ''FAULT'' \<or> phase_status = ''TIMED_OUT'' then (Cross_red, ''red'')
      else (Circle_dim, ''dim''))"

definition phase_row :: "string \<Rightarrow> phase \<Rightarrow> timeline_row" where
  "phase_row overall ph =
     (let phase_status = resolve_phase_status overall ph;
          (icon, style) = phase_icon_style phase_status
      in Phase_row icon (phase_name_of ph) phase_status style)"

text \<open>\<open>xs[-8:]\<close>: the last eight elements, all of them when there are fewer.\<close>

definition last8 :: "'a list \<Rightarrow> 'a list" where
  "last8 xs = drop (length xs - 8) xs"

definition event_row_of :: "build_event \<Rightarrow> event_row" where
  "event_row_of event = Event_row (strftime_HMS (timestamp event)) (message event)"

definition create_display :: "watchdog \<Rightarrow> build_info \<Rightarrow> panel" where
  "create_display self info =
     (let overall = get_default (buildStatus info) ''UNKNOWN'';
          phs = get_default (phases info) []
      in \<lparr>header_text =
            ''BuildWatchDog | Build: '' @ take 20 (build_id self) @ ''...'' @
            '' | Project: '' @ project_name self,
          status_icon = get_default (map_of status_emoji overall) White_circle,
          status_text = overall,
          status_style =
            (if overall = ''SUCCEEDED'' then ''bold green''
             else if overall = ''IN_PROGRESS'' then ''bold yellow'' else ''bold red''),
          timeline = (if phs \<noteq> [] then map (phase_row overall) phs else [No_phase_information]),
          event_table =
            (if events self \<noteq> [] then map event_row_of (last8 (events self))
             else [No_events_yet]),
          subtitle_interval = interval self\<rparr>)"

text \<open>
  \<open>NotificationManager.send\<close> is recorded as the call; what the platform then does with
  it never reaches the monitor.
\<close>

definition send :: "string \<Rightarrow> string \<Rightarrow> watchdog \<Rightarrow> watchdog" where
  "send title msg self = do_effect (Notify title msg) self"

text \<open>Lines 246 to 259.  \<open>now\<close> is what \<open>datetime.now()\<close> returns.\<close>

definition add_event :: "datetime \<Rightarrow> string \<Rightarrow> string \<Rightarrow> watchdog \<Rightarrow> watchdog" where
  "add_event now new_status msg self =
     (let self1 = self\<lparr>events := events self @
                     [\<lparr>timestamp = now, status = new_status, message = msg\<rparr>]\<rparr>
      in if Some new_status \<noteq> last_status self1 \<and> last_status self1 \<noteq> None then
           (let self2 = (if notify_mode self1 \<in> set [''desktop'', ''both'']
                         then send ''BuildWatchDog'' msg self1 else self1)
            in self2\<lparr>last_status := Some new_status\<rparr>)
         else self1)"

subsection \<open>The monitor loop\<close>

text \<open>
  The inputs of the loop, one for each call of the fetcher that the monitor reaches: the
  call returns a value (\<open>Fetched\<close>), the call raises (\<open>Raised_in_fetch\<close>), the user
  interrupts during the call (\<open>Interrupt_in_fetch\<close>), or the user interrupts before the
  call is made, while the monitor pauses or renders (\<open>Interrupt\<close>).  A run is a function
  of the list of its inputs; when the list ends the monitor is \<open>Waiting\<close> for the next
  one.  The clock gives the time of the \<open>n\<close>-th event, the only place where the time is
  read.
\<close>

datatype input =
    Fetched "build_info option"
  | Raised_in_fetch py_exception
  | Interrupt_in_fetch
  | Interrupt

datatype result =
    Exited int                 \<comment> \<open>\<open>sys.exit\<close>, or the return of \<open>run\<close> with exit code 0\<close>
  | Uncaught py_exception      \<comment> \<open>a traceback; the interpreter exits with code 1\<close>
  | Killed_by_interrupt        \<comment> \<open>a \<open>KeyboardInterrupt\<close> outside the \<open>try\<close>\<close>
  | Waiting

fun exit_code :: "result \<Rightarrow> int option" where
  "exit_code (Exited n) = Some n"
| "exit_code (Uncaught e) = Some 1"
| "exit_code Killed_by_interrupt = None"
| "exit_code Waiting = None"

definition terminal_statuses :: "string list" where
  "terminal_statuses = [''SUCCEEDED'', ''FAILED'', ''STOPPED'', ''FAULT'', ''TIMED_OUT'']"

text \<open>
  \<open>time.sleep(secs)\<close> with an integer: the library raises \<open>ValueError\<close> for a negative
  length and \<open>OverflowError\<close> for a length whose nanoseconds do not fit 64 bits, that is
  from 9223372037 seconds; below that the operating system may still refuse a length
  above its own limit \<open>sleep_max\<close> with \<open>OSError\<close>.  \<open>None\<close>: the pause is made.
\<close>

definition time_sleep :: "int \<Rightarrow> int \<Rightarrow> py_exception option" where
  "time_sleep sleep_max secs =
     (if secs < 0 then Some ValueError
      else if 9223372036 < secs then Some OverflowError
      else if sleep_max < secs then Some OSError
      else None)"

text \<open>The pause followed by the rest of the run; nothing in \<open>run\<close> catches what it raises.\<close>

definition sleep_then ::
  "int \<Rightarrow> int \<Rightarrow> watchdog \<Rightarrow> (watchdog \<Rightarrow> result \<times> watchdog) \<Rightarrow> result \<times> watchdog" where
  "sleep_then sleep_max secs self continue =
     (case time_sleep sleep_max secs of
        Some e \<Rightarrow> (Uncaught e, self)
      | None \<Rightarrow> continue (do_effect (Sleep secs) self))"

definition interrupted :: "watchdog \<Rightarrow> result \<times> watchdog" where
  "interrupted self =
     (Exited 0, do_effect (Print (CHR 0x0A # ''[yellow]Monitoring stopped by user.[/yellow]'')) self)"

text \<open>Lines 282 and 283: a fetch that gave nothing.\<close>

definition on_fetch_failed :: "(nat \<Rightarrow> datetime) \<Rightarrow> watchdog \<Rightarrow> build_info option \<Rightarrow> watchdog" where
  "on_fetch_failed clock self r =
     (let self1 = add_event (clock (length (events self))) ''ERROR'' ''Failed to fetch build info'' self
      in do_effect (Display (create_display self1 (or_empty r))) self1)"

text \<open>Lines 287 to 293: a fetched snapshot.\<close>

definition on_status :: "(nat \<Rightarrow> datetime) \<Rightarrow> watchdog \<Rightarrow> build_info \<Rightarrow> watchdog" where
  "on_status clock self info =
     (let current_status = get_default (buildStatus info) ''UNKNOWN'';
          self1 = (if Some current_status \<noteq> last_status self
                   then add_event (clock (length (events self))) current_status
                          (''Status changed to '' @ current_status) self
                   else self)
      in do_effect (Display (create_display self1 info)) self1)"

text \<open>Lines 299 to 308: the last fetch, the summary and the \<open>break\<close>.\<close>

fun final_fetch :: "watchdog \<Rightarrow> string \<Rightarrow> input list \<Rightarrow> result \<times> watchdog" where
  "final_fetch self current_status [] = (Waiting, self)"
| "final_fetch self current_status (Interrupt # rest) = interrupted self"
| "final_fetch self current_status (Interrupt_in_fetch # rest) = interrupted (do_effect Fetch self)"
| "final_fetch self current_status (Raised_in_fetch e # rest) = (Uncaught e, do_effect Fetch self)"
| "final_fetch self current_status (Fetched final_build_info # rest) =
     (let self1 = do_effect Fetch self;
          self2 = (if truthy final_build_info
                   then do_effect (Display (create_display self1 (or_empty final_build_info))) self1
                   else self1)
      in (Exited 0,
          do_effect (Print (CHR 0x0A # ''[bold]Build '' @ current_status @ ''![/bold]'')) self2))"

text \<open>Lines 297 to 308: the pause of three seconds, then the above.\<close>

definition finalize :: "int \<Rightarrow> watchdog \<Rightarrow> string \<Rightarrow> input list \<Rightarrow> result \<times> watchdog" where
  "finalize sleep_max self current_status script =
     sleep_then sleep_max 3 self (\<lambda>s. final_fetch s current_status script)"

text \<open>Lines 278 to 310: the \<open>while True\<close> loop inside the \<open>try\<close>.\<close>

fun poll :: "int \<Rightarrow> (nat \<Rightarrow> datetime) \<Rightarrow> watchdog \<Rightarrow> input list \<Rightarrow> result \<times> watchdog" where
  "poll sleep_max clock self [] = (Waiting, self)"
| "poll sleep_max clock self (Interrupt # rest) = interrupted self"
| "poll sleep_max clock self (Interrupt_in_fetch # rest) = interrupted (do_effect Fetch self)"
| "poll sleep_max clock self (Raised_in_fetch e # rest) = (Uncaught e, do_effect Fetch self)"
| "poll sleep_max clock self (Fetched r # rest) =
     (let self1 = do_effect Fetch self
      in if \<not> truthy r then
           (let self2 = on_fetch_failed clock self1 r
            in sleep_then sleep_max (interval self2) self2 (\<lambda>s. poll sleep_max clock s rest))
         else
           (let build_info = or_empty r;
                current_status = get_default (buildStatus build_info) ''UNKNOWN'';
                self2 = on_status clock self1 build_info
            in if current_status \<in> set terminal_statuses
               then finalize sleep_max self2 current_status rest
               else sleep_then sleep_max (interval self2) self2
                      (\<lambda>s. poll sleep_max clock s rest)))"

text \<open>
  Lines 261 to 314.  The first fetch is outside the \<open>try\<close>: an exception it raises and
  an interrupt during it end the process.
\<close>

definition run ::
  "int \<Rightarrow> (nat \<Rightarrow> datetime) \<Rightarrow> watchdog \<Rightarrow> input list \<Rightarrow> result \<times> watchdog" where
  "run sleep_max clock self script =
     (let self0 = do_effect (Print (''[dim]Monitoring build: '' @ build_id self @ ''[/dim]'' @ [CHR 0x0A]))
                    (do_effect (Print ''[cyan]Starting BuildWatchDog...[/cyan]'') self)
      in case script of
           [] \<Rightarrow> (Waiting, self0)
         | Interrupt # rest \<Rightarrow> (Killed_by_interrupt, self0)
         | Interrupt_in_fetch # rest \<Rightarrow> (Killed_by_interrupt, do_effect Fetch self0)
         | Raised_in_fetch e # rest \<Rightarrow> (Uncaught e, do_effect Fetch self0)
         | Fetched r # rest \<Rightarrow>
             (let self1 = do_effect Fetch self0
              in if \<not> truthy r then (Exited 1, self1)
                 else
                   (let build_info = or_empty r;
                        self2 = self1\<lparr>project_name := get_default (projectName build_info) ''Unknown''\<rparr>;
                        initial_status = get_default (buildStatus build_info) ''UNKNOWN'';
                        self3 = self2\<lparr>last_status := Some initial_status\<rparr>;
                        self4 = add_event (clock (length (events self3))) initial_status
                                  (''Started monitoring - '' @ initial_status) self3;
                        self5 = do_effect (Display (create_display self4 build_info)) self4
                    in poll sleep_max clock self5 rest)))"

text \<open>The command line, after \<open>argparse\<close>, and \<open>main\<close>.\<close>

record args =
  arg_build_id :: string
  arg_interval :: int
  arg_notify :: string
  arg_profile :: "string option"

definition main ::
  "int \<Rightarrow> (nat \<Rightarrow> datetime) \<Rightarrow> args \<Rightarrow> input list \<Rightarrow> result \<times> watchdog" where
  "main sleep_max clock a script =
     (let watchdog = new_watchdog (arg_build_id a) (arg_interval a) (arg_notify a);
          warned = (if arg_interval a < 5
                    then do_effect (Print ''[yellow]Warning: Interval less than 5 seconds may cause rate limiting.[/yellow]'') watchdog
                    else watchdog)
      in run sleep_max clock warned script)"

subsection \<open>Notions used to state the properties\<close>

text \<open>The calls of the notifier among the effects, in order: title and message.\<close>

definition notifications :: "effect list \<Rightarrow> (string \<times> string) list" where
  "notifications es = concat (map (\<lambda>e. case e of Notify t m \<Rightarrow> [(t, m)] | _ \<Rightarrow> []) es)"

text \<open>
  The policy of section 4.4 of the specification for the status shown for a phase, in its
  words: a status that is present is used; else a phase named COMPLETED under a build that
  SUCCEEDED is shown as succeeded; else the phase is pending.  A status is present when
  the key is there with a non-empty string.
\<close>

definition status_present :: "phase \<Rightarrow> bool" where
  "status_present ph \<longleftrightarrow> (case phaseStatus ph of None \<Rightarrow> False | Some s \<Rightarrow> s \<noteq> [])"

definition spec_phase_status :: "string \<Rightarrow> phase \<Rightarrow> string" where
  "spec_phase_status overall ph =
     (case phaseStatus ph of
        Some s \<Rightarrow>
          if s \<noteq> [] then s
          else if phaseType ph = Some ''COMPLETED'' \<and> overall = ''SUCCEEDED'' then ''SUCCEEDED''
          else ''PENDING''
      | None \<Rightarrow>
          if phaseType ph = Some ''COMPLETED'' \<and> overall = ''SUCCEEDED'' then ''SUCCEEDED''
          else ''PENDING'')"

fun shown_status :: "timeline_row \<Rightarrow> string option" where
  "shown_status (Phase_row icon name phase_status style) = Some phase_status"
| "shown_status No_phase_information = None"

text \<open>The number of fetches among the effects.\<close>

definition fetches :: "effect list \<Rightarrow> nat" where
  "fetches es = length (filter (\<lambda>e. e = Fetch) es)"

text \<open>
  The monitor at the moment polling begins: lines 263 to 277 of \<open>run\<close> after a first
  fetch that gave the snapshot \<open>info\<close>.
\<close>

definition started :: "(nat \<Rightarrow> datetime) \<Rightarrow> watchdog \<Rightarrow> build_info \<Rightarrow> watchdog" where
  "started clock self info =
     (let self1 = do_effect Fetch
            (do_effect (Print (''[dim]Monitoring build: '' @ build_id self @ ''[/dim]'' @ [CHR 0x0A]))
               (do_effect (Print ''[cyan]Starting BuildWatchDog...[/cyan]'') self));
          self2 = self1\<lparr>project_name := get_default (projectName info) ''Unknown''\<rparr>;
          initial_status = get_default (buildStatus info) ''UNKNOWN'';
          self3 = self2\<lparr>last_status := Some initial_status\<rparr>;
          self4 = add_event (clock (length (events self3))) initial_status
                    (''Started monitoring - '' @ initial_status) self3
      in do_effect (Display (create_display self4 info)) self4)"

subsection \<open>Sample inputs\<close>

text \<open>
  A decoder that knows two texts; a console that rejects, as rich does, the error line
  for a text with the closing tag \<open>[/foo]\<close> and the line that quotes a \<open>MarkupError\<close>; a
  limit of the operating system for a pause; a clock, snapshots, monitors and a command
  line.
\<close>

definition example_console :: "diagnostic \<Rightarrow> py_exception option" where
  "example_console line =
     (case line of
        CLI_error error_msg \<Rightarrow> if py_in ''[/foo]'' error_msg then Some MarkupError else None
      | Unexpected_error e \<Rightarrow> if e = MarkupError then Some MarkupError else None
      | _ \<Rightarrow> None)"

definition example_sleep_max :: int where
  "example_sleep_max = 9223372035"

definition example_loads :: "string \<Rightarrow> py_exception + json" where
  \<open>example_loads s =
     (if s = ''{"builds": [{"buildStatus": "FAILED"}]}''
      then Inr (JObject [(''builds'', JArray [JObject [(''buildStatus'', JString ''FAILED'')]])])
      else if s = ''{"builds": []}'' then Inr (JObject [(''builds'', JArray [])])
      else Inl JSONDecodeError)\<close>

definition example_clock :: "nat \<Rightarrow> datetime" where
  "example_clock n = \<lparr>hour = 12, minute = n div 60 mod 60, second = n mod 60\<rparr>"

definition in_progress_info :: build_info where
  "in_progress_info =
     \<lparr>buildStatus = Some ''IN_PROGRESS'', projectName = Some ''demo'',
      currentPhase = Some ''BUILD'',
      phases = Some [\<lparr>phaseType = Some ''SUBMITTED'', phaseStatus = Some ''SUCCEEDED''\<rparr>,
                     \<lparr>phaseType = Some ''BUILD'', phaseStatus = Some ''IN_PROGRESS''\<rparr>],
      other_keys = 3\<rparr>"

definition succeeded_info :: build_info where
  "succeeded_info =
     \<lparr>buildStatus = Some ''SUCCEEDED'', projectName = Some ''demo'',
      currentPhase = Some ''COMPLETED'',
      phases = Some [\<lparr>phaseType = Some ''BUILD'', phaseStatus = Some ''SUCCEEDED''\<rparr>,
                     \<lparr>phaseType = Some ''COMPLETED'', phaseStatus = None\<rparr>],
      other_keys = 3\<rparr>"

definition polling_watchdog :: "string \<Rightarrow> watchdog" where
  "polling_watchdog mode =
     (new_watchdog ''demo:1234'' 10 mode)\<lparr>last_status := Some ''IN_PROGRESS''\<rparr>"

definition status_info :: "string \<Rightarrow> build_info" where
  "status_info s = in_progress_info\<lparr>buildStatus := Some s\<rparr>"

definition nine_events :: "build_event list" where
  "nine_events =
     [\<lparr>timestamp = example_clock 0, status = ''IN_PROGRESS'', message = ''Started monitoring - IN_PROGRESS''\<rparr>,
      \<lparr>timestamp = example_clock 10, status = ''ERROR'', message = ''Failed to fetch build info''\<rparr>,
      \<lparr>timestamp = example_clock 20, status = ''IN_PROGRESS'', message = ''Status changed to IN_PROGRESS''\<rparr>,
      \<lparr>timestamp = example_clock 30, status = ''ERROR'', message = ''Failed to fetch build info''\<rparr>,
      \<lparr>timestamp = example_clock 40, status = ''IN_PROGRESS'', message = ''Status changed to IN_PROGRESS''\<rparr>,
      \<lparr>timestamp = example_clock 50, status = ''ERROR'', message = ''Failed to fetch build info''\<rparr>,
      \<lparr>timestamp = example_clock 60, status = ''IN_PROGRESS'', message = ''Status changed to IN_PROGRESS''\<rparr>,
      \<lparr>timestamp = example_clock 70, status = ''STOPPED'', message = ''Status changed to STOPPED''\<rparr>,
      \<lparr>timestamp = example_clock 83, status = ''ERROR'', message = ''Failed to fetch build info''\<rparr>]"

definition busy_watchdog :: watchdog where
  "busy_watchdog = (new_watchdog ''demo:1234'' 10 ''both'')\<lparr>events := nine_events\<rparr>"

definition example_args :: "int \<Rightarrow> string \<Rightarrow> args" where
  "example_args ival mode =
     \<lparr>arg_build_id = ''demo:1234'', arg_interval = ival, arg_notify = mode, arg_profile = None\<rparr>"

section \<open>Properties of the fetcher\<close>

lemma console_print_literal: "\<not> interpolated line \<Longrightarrow> console_print rich line = Inr [line]"
  by (simp add: console_print_def)

lemma console_print_cases:
  "console_print rich line = Inr [line] \<or> (\<exists>e. console_print rich line = Inl e)"
  by (auto simp: console_print_def split: option.splits)

lemma except_line_not_expired: "except_line e \<noteq> Credentials_expired"
  by (cases e) simp_all

lemma get_build_info_printed:
  "get_build_info_try rich json_loads bid oc = Inl e \<Longrightarrow>
     fst (get_build_info rich json_loads bid oc) = [] \<or>
     fst (get_build_info rich json_loads bid oc) = [except_line e]"
  using console_print_cases[of rich "except_line e"]
  by (auto simp: get_build_info_def)

lemma get_build_info_literal:
  "rc \<noteq> 0 \<Longrightarrow> \<not> interpolated (classify_error (strip err)) \<Longrightarrow>
     get_build_info rich json_loads bid (Completed rc out err) =
       ([classify_error (strip err)], Inr JNull)"
  by (simp add: get_build_info_def get_build_info_try_def console_print_literal)

lemma try_printed_zero:
  "get_build_info_try rich json_loads bid (Completed 0 out err) = Inr (ds, v) \<Longrightarrow>
     ds = [] \<or> ds = [Build_not_found bid]"
  by (auto simp: get_build_info_try_def console_print_def split: sum.splits if_splits option.splits)

lemma try_printed_nonzero:
  "rc \<noteq> 0 \<Longrightarrow> get_build_info_try rich json_loads bid (Completed rc out err) = Inr (ds, v) \<Longrightarrow>
     ds = [classify_error (strip err)]"
  by (auto simp: get_build_info_try_def console_print_def split: sum.splits if_splits option.splits)

lemma try_raise_nonzero:
  "rc \<noteq> 0 \<Longrightarrow> get_build_info_try rich json_loads bid (Completed rc out err) = Inl e \<Longrightarrow>
     interpolated (classify_error (strip err))"
  by (auto simp: get_build_info_try_def console_print_def split: sum.splits if_splits option.splits)

lemma interpolated_classify:
  "interpolated (classify_error msg) \<longleftrightarrow>
     \<not> py_in ''could not be found'' (lower msg) \<and> \<not> py_in ''credentials'' (lower msg) \<and>
     \<not> py_in ''expired'' (lower msg)"
  by (simp add: classify_error_def)

lemma expired_printed_iff:
  "Credentials_expired \<in> set (fst (get_build_info rich json_loads bid oc)) \<longleftrightarrow>
     (\<exists>rc out err. oc = Completed rc out err \<and> rc \<noteq> 0 \<and>
        classify_error (strip err) = Credentials_expired)"
proof (cases "get_build_info_try rich json_loads bid oc")
  case (Inl e)
  from get_build_info_printed[OF Inl] except_line_not_expired[of e]
  have no: "Credentials_expired \<notin> set (fst (get_build_info rich json_loads bid oc))"
    by auto
  have "classify_error (strip err) \<noteq> Credentials_expired"
    if "oc = Completed rc out err" "rc \<noteq> 0" for rc out err
    using try_raise_nonzero[of rc rich json_loads bid out err e] Inl that by auto
  with no show ?thesis by blast
next
  case (Inr r)
  obtain ds v where r: "r = (ds, v)" by (cases r)
  with Inr have fst_eq: "fst (get_build_info rich json_loads bid oc) = ds"
    by (simp add: get_build_info_def)
  show ?thesis
  proof (cases oc)
    case (Raised e)
    with Inr show ?thesis by (simp add: get_build_info_try_def)
  next
    case (Completed rc out err)
    show ?thesis
    proof (cases "rc = 0")
      case True
      with Completed Inr r try_printed_zero[of rich json_loads bid out err ds v] fst_eq
      show ?thesis by auto
    next
      case False
      with Completed Inr r try_printed_nonzero[of rc rich json_loads bid out err ds v] fst_eq
      show ?thesis by auto
    qed
  qed
qed

text \<open>With a console that accepts every line the fetcher returns, whatever the command did.\<close>

lemma get_build_info_returns:
  assumes "\<And>line. rich line = None"
  shows "\<exists>v. snd (get_build_info rich json_loads bid oc) = Inr v"
proof -
  have p: "console_print rich line = Inr [line]" for line
    by (simp add: console_print_def assms)
  show ?thesis
    by (cases "get_build_info_try rich json_loads bid oc")
       (auto simp: get_build_info_def p)
qed

text \<open>
  Claim C7 at a failing command: exit code 1 and the error text
  \<open>error [/foo] happened\<close>.  The text fits none of the three tests, so line 76 prints it
  inside red tags; rich raises \<open>MarkupError\<close> for the closing tag \<open>[/foo]\<close>, inside the
  \<open>try\<close>.  The clause \<open>except Exception\<close> takes it and prints the text of the exception,
  which quotes the tag, at line 96; rich raises again, now outside any \<open>try\<close>, and the
  exception leaves \<open>get_build_info\<close> with nothing printed and nothing returned.
\<close>

theorem get_build_info_raises_markup_error:
  "get_build_info_try example_console example_loads ''demo:1234''
     (Completed 1 [] ''error [/foo] happened'') = Inl MarkupError
   \<and> get_build_info example_console example_loads ''demo:1234''
     (Completed 1 [] ''error [/foo] happened'') = ([], Inl MarkupError)"
  by code_simp

text \<open>
  Claim C10, as it stands, fails: an error text with \<open>credentials\<close> and \<open>expired\<close> that
  also holds \<open>could not be found\<close> is reported as a missing AWS CLI, the first test of
  the chain.
\<close>

theorem classify_both_keywords_counterexample:
  "py_in ''credentials''
     (lower (strip ''Credentials expired: the config profile could not be found''))
   \<and> py_in ''expired''
     (lower (strip ''Credentials expired: the config profile could not be found''))
   \<and> fst (get_build_info example_console example_loads ''demo:1234''
        (Completed 255 [] ''Credentials expired: the config profile could not be found''))
       \<noteq> [Invalid_credentials]"
  by code_simp

text \<open>
  Claim C10, amended.  On a non-zero exit code the tests on the lower-cased error text are
  applied in the order \<open>could not be found\<close>, \<open>credentials\<close>, \<open>expired\<close>: a text with
  \<open>could not be found\<close> is reported as a missing AWS CLI; a text without it that holds
  \<open>credentials\<close> (with or without \<open>expired\<close>) is reported as invalid credentials; and the
  expired-credentials diagnostic is printed exactly for a failed command whose text holds
  \<open>expired\<close> and neither of the other two.
\<close>

theorem classify_error_precedence:
  "(rc \<noteq> 0 \<and> \<not> py_in ''could not be found'' (lower (strip err)) \<and>
      py_in ''credentials'' (lower (strip err)) \<longrightarrow>
      fst (get_build_info rich json_loads bid (Completed rc out err)) = [Invalid_credentials])
   \<and> (rc \<noteq> 0 \<and> py_in ''could not be found'' (lower (strip err)) \<longrightarrow>
      fst (get_build_info rich json_loads bid (Completed rc out err)) = [CLI_not_found])
   \<and> (Credentials_expired \<in> set (fst (get_build_info rich json_loads bid oc)) \<longleftrightarrow>
       (\<exists>rc out err. oc = Completed rc out err \<and> rc \<noteq> 0 \<and>
          py_in ''expired'' (lower (strip err)) \<and>
          \<not> py_in ''could not be found'' (lower (strip err)) \<and>
          \<not> py_in ''credentials'' (lower (strip err))))"
proof (intro conjI impI)
  show "fst (get_build_info rich json_loads bid (Completed rc out err)) = [Invalid_credentials]"
    if "rc \<noteq> 0 \<and> \<not> py_in ''could not be found'' (lower (strip err)) \<and>
        py_in ''credentials'' (lower (strip err))"
  proof -
    from that have c: "classify_error (strip err) = Invalid_credentials"
      by (simp add: classify_error_def)
    with that show ?thesis by (simp add: get_build_info_literal)
  qed
  show "fst (get_build_info rich json_loads bid (Completed rc out err)) = [CLI_not_found]"
    if "rc \<noteq> 0 \<and> py_in ''could not be found'' (lower (strip err))"
  proof -
    from that have c: "classify_error (strip err) = CLI_not_found"
      by (simp add: classify_error_def)
    with that show ?thesis by (simp add: get_build_info_literal)
  qed
  have e: "classify_error msg = Credentials_expired \<longleftrightarrow>
            py_in ''expired'' (lower msg) \<and> \<not> py_in ''could not be found'' (lower msg) \<and>
            \<not> py_in ''credentials'' (lower msg)" for msg
    by (simp add: classify_error_def)
  show "Credentials_expired \<in> set (fst (get_build_info rich json_loads bid oc)) \<longleftrightarrow>
       (\<exists>rc out err. oc = Completed rc out err \<and> rc \<noteq> 0 \<and>
          py_in ''expired'' (lower (strip err)) \<and>
          \<not> py_in ''could not be found'' (lower (strip err)) \<and>
          \<not> py_in ''credentials'' (lower (strip err)))"
    unfolding expired_printed_iff e ..
qed

theorem classify_error_precedence_witness:
  "fst (get_build_info example_console example_loads ''demo:1234''
         (Completed 255 [] ''Unable to locate credentials (token expired)''))
     = [Invalid_credentials]
   \<and> fst (get_build_info example_console example_loads ''demo:1234''
         (Completed 255 [] ''The config profile (dev) could not be found''))
     = [CLI_not_found]
   \<and> Credentials_expired \<in> set (fst (get_build_info example_console example_loads ''demo:1234''
         (Completed 255 [] ''ExpiredToken: token has Expired'')))"
proof -
  have a: "(255::int) \<noteq> 0 \<and>
      \<not> py_in ''could not be found'' (lower (strip ''Unable to locate credentials (token expired)'')) \<and>
      py_in ''credentials'' (lower (strip ''Unable to locate credentials (token expired)''))"
    by code_simp
  have b: "(255::int) \<noteq> 0 \<and>
      py_in ''could not be found'' (lower (strip ''The config profile (dev) could not be found''))"
    by code_simp
  have c: "\<exists>rc out err. Completed 255 [] ''ExpiredToken: token has Expired'' = Completed rc out err \<and>
          rc \<noteq> 0 \<and> py_in ''expired'' (lower (strip err)) \<and>
          \<not> py_in ''could not be found'' (lower (strip err)) \<and>
          \<not> py_in ''credentials'' (lower (strip err))"
  proof (intro exI conjI)
    show "Completed 255 [] ''ExpiredToken: token has Expired'' =
          Completed 255 [] ''ExpiredToken: token has Expired''" by simp
    show "(255::int) \<noteq> 0" by simp
    show "py_in ''expired'' (lower (strip ''ExpiredToken: token has Expired''))" by code_simp
    show "\<not> py_in ''could not be found'' (lower (strip ''ExpiredToken: token has Expired''))"
      by code_simp
    show "\<not> py_in ''credentials'' (lower (strip ''ExpiredToken: token has Expired''))"
      by code_simp
  qed
  from a b c show ?thesis
    using classify_error_precedence[where rc = 255
            and err = "''Unable to locate credentials (token expired)''"
            and rich = example_console
            and json_loads = example_loads and bid = "''demo:1234''" and out = "[]"
            and oc = "Completed 255 [] ''ExpiredToken: token has Expired''"]
          classify_error_precedence[where rc = 255
            and err = "''The config profile (dev) could not be found''"
            and rich = example_console
            and json_loads = example_loads and bid = "''demo:1234''" and out = "[]"
            and oc = "Completed 255 [] ''ExpiredToken: token has Expired''"]
    by blast
qed

section \<open>Properties of the event log and of the monitor loop\<close>

subsection \<open>What each step changes\<close>

lemma notifications_append [simp]: "notifications (xs @ ys) = notifications xs @ notifications ys"
  by (simp add: notifications_def)

lemma notifications_simps [simp]:
  "notifications [] = []"
  "notifications (Notify t m # es) = (t, m) # notifications es"
  "notifications (Print p # es) = notifications es"
  "notifications (Fetch # es) = notifications es"
  "notifications (Display d # es) = notifications es"
  "notifications (Sleep n # es) = notifications es"
  by (simp_all add: notifications_def)

lemma add_event_effects:
  "effects (add_event now st msg self) =
     effects self @
       (if Some st \<noteq> last_status self \<and> last_status self \<noteq> None \<and>
           (notify_mode self = ''desktop'' \<or> notify_mode self = ''both'')
        then [Notify ''BuildWatchDog'' msg] else [])"
  by (simp add: add_event_def send_def do_effect_def Let_def)

lemma add_event_events:
  "events (add_event now st msg self) =
     events self @ [\<lparr>timestamp = now, status = st, message = msg\<rparr>]"
  by (simp add: add_event_def send_def do_effect_def Let_def)

lemma add_event_last_status:
  "last_status (add_event now st msg self) =
     (if Some st \<noteq> last_status self \<and> last_status self \<noteq> None then Some st
      else last_status self)"
  by (simp add: add_event_def send_def do_effect_def Let_def)

lemma add_event_frame [simp]:
  "interval (add_event now st msg self) = interval self"
  "notify_mode (add_event now st msg self) = notify_mode self"
  "build_id (add_event now st msg self) = build_id self"
  "project_name (add_event now st msg self) = project_name self"
  by (simp_all add: add_event_def send_def do_effect_def Let_def)

lemma do_effect_frame [simp]:
  "interval (do_effect e self) = interval self"
  "notify_mode (do_effect e self) = notify_mode self"
  "events (do_effect e self) = events self"
  "last_status (do_effect e self) = last_status self"
  "build_id (do_effect e self) = build_id self"
  "project_name (do_effect e self) = project_name self"
  "effects (do_effect e self) = effects self @ [e]"
  by (simp_all add: do_effect_def)

lemma on_fetch_failed_frame [simp]:
  "interval (on_fetch_failed clock self r) = interval self"
  "notify_mode (on_fetch_failed clock self r) = notify_mode self"
  by (simp_all add: on_fetch_failed_def Let_def)

lemma on_status_frame [simp]:
  "interval (on_status clock self info) = interval self"
  "notify_mode (on_status clock self info) = notify_mode self"
  by (simp_all add: on_status_def Let_def)

lemma on_fetch_failed_events:
  "events (on_fetch_failed clock self r) =
     events self @ [\<lparr>timestamp = clock (length (events self)), status = ''ERROR'',
                     message = ''Failed to fetch build info''\<rparr>]"
  by (simp add: on_fetch_failed_def Let_def add_event_events)

lemma on_fetch_failed_last_status:
  "last_status (on_fetch_failed clock self r) =
     (if last_status self = None then None else Some ''ERROR'')"
  by (auto simp add: on_fetch_failed_def Let_def add_event_last_status)

lemma on_status_events:
  "events (on_status clock self info) =
     events self @
       (if Some (get_default (buildStatus info) ''UNKNOWN'') \<noteq> last_status self
        then [\<lparr>timestamp = clock (length (events self)),
                status = get_default (buildStatus info) ''UNKNOWN'',
                message = ''Status changed to '' @ get_default (buildStatus info) ''UNKNOWN''\<rparr>]
        else [])"
  by (simp add: on_status_def Let_def add_event_events)

lemma on_status_last_status:
  "last_status (on_status clock self info) =
     (if last_status self = None then None
      else Some (get_default (buildStatus info) ''UNKNOWN''))"
  by (auto simp add: on_status_def Let_def add_event_last_status)

lemma on_status_notifications:
  "notifications (effects (on_status clock self info)) =
     notifications (effects self) @
       (if Some (get_default (buildStatus info) ''UNKNOWN'') \<noteq> last_status self \<and>
           last_status self \<noteq> None \<and>
           (notify_mode self = ''desktop'' \<or> notify_mode self = ''both'')
        then [(''BuildWatchDog'', ''Status changed to '' @ get_default (buildStatus info) ''UNKNOWN'')]
        else [])"
  by (simp add: on_status_def Let_def add_event_effects)

lemma on_fetch_failed_notifications:
  "notifications (effects (on_fetch_failed clock self r)) =
     notifications (effects self) @
       (if Some ''ERROR'' \<noteq> last_status self \<and> last_status self \<noteq> None \<and>
           (notify_mode self = ''desktop'' \<or> notify_mode self = ''both'')
        then [(''BuildWatchDog'', ''Failed to fetch build info'')]
        else [])"
  by (simp add: on_fetch_failed_def Let_def add_event_effects)

lemma interrupted_simps [simp]:
  "fst (interrupted self) = Exited 0"
  "events (snd (interrupted self)) = events self"
  "notifications (effects (snd (interrupted self))) = notifications (effects self)"
  by (simp_all add: interrupted_def)

lemma final_fetch_events: "events (snd (final_fetch self cs script)) = events self"
  by (cases "(self, cs, script)" rule: final_fetch.cases) (simp_all add: Let_def)

lemma final_fetch_notifications:
  "notifications (effects (snd (final_fetch self cs script))) = notifications (effects self)"
  by (cases "(self, cs, script)" rule: final_fetch.cases) (simp_all add: Let_def)

lemma final_fetch_result:
  "\<forall>e. Raised_in_fetch e \<notin> set script \<Longrightarrow>
     fst (final_fetch self cs script) = (if script = [] then Waiting else Exited 0)"
  by (cases "(self, cs, script)" rule: final_fetch.cases) (auto simp add: Let_def)

lemma finalize_events: "events (snd (finalize sleep_max self cs script)) = events self"
  by (simp add: finalize_def sleep_then_def final_fetch_events split: option.splits)

lemma finalize_notifications:
  "notifications (effects (snd (finalize sleep_max self cs script))) = notifications (effects self)"
  by (simp add: finalize_def sleep_then_def final_fetch_notifications split: option.splits)

lemma finalize_result:
  "time_sleep sleep_max 3 = None \<Longrightarrow> \<forall>e. Raised_in_fetch e \<notin> set script \<Longrightarrow>
     fst (finalize sleep_max self cs script) = (if script = [] then Waiting else Exited 0)"
  by (simp add: finalize_def sleep_then_def final_fetch_result)

text \<open>
  When \<open>time.sleep\<close> accepts the interval and the three seconds, and no fetch raises,
  the loop ends only by the \<open>break\<close> after a terminal status or by the user's interrupt,
  both with exit code 0.
\<close>

lemma poll_result:
  "time_sleep sleep_max (interval self) = None \<Longrightarrow> time_sleep sleep_max 3 = None \<Longrightarrow>
   \<forall>e. Raised_in_fetch e \<notin> set script \<Longrightarrow>
     fst (poll sleep_max clock self script) = Waiting \<or>
     fst (poll sleep_max clock self script) = Exited 0"
proof (induction script arbitrary: self)
  case Nil
  then show ?case by simp
next
  case (Cons i rest)
  from Cons.prems have nr: "\<forall>e. Raised_in_fetch e \<notin> set rest" by simp
  show ?case
  proof (cases i)
    case Interrupt
    then show ?thesis by simp
  next
    case Interrupt_in_fetch
    then show ?thesis by simp
  next
    case (Raised_in_fetch e)
    with Cons.prems show ?thesis by auto
  next
    case (Fetched r)
    show ?thesis
    proof (cases "truthy r")
      case False
      with Fetched Cons.prems nr
        Cons.IH[of "do_effect (Sleep (interval self)) (on_fetch_failed clock (do_effect Fetch self) r)"]
      show ?thesis by (simp add: Let_def sleep_then_def)
    next
      case True
      with Fetched Cons.prems nr
        Cons.IH[of "do_effect (Sleep (interval self)) (on_status clock (do_effect Fetch self) (or_empty r))"]
      show ?thesis by (simp add: Let_def sleep_then_def finalize_result)
    qed
  qed
qed

lemma poll_events_prefix:
  "prefix (events self) (events (snd (poll sleep_max clock self script)))"
proof (induction script arbitrary: self)
  case Nil
  then show ?case by simp
next
  case (Cons i rest)
  show ?case
  proof (cases i)
    case Interrupt
    then show ?thesis by simp
  next
    case Interrupt_in_fetch
    then show ?thesis by simp
  next
    case (Raised_in_fetch e)
    then show ?thesis by simp
  next
    case (Fetched r)
    show ?thesis
    proof (cases "truthy r")
      case False
      have "prefix (events self) (events (on_fetch_failed clock (do_effect Fetch self) r))"
        by (simp add: on_fetch_failed_events)
      with False Fetched
        Cons.IH[of "do_effect (Sleep (interval self)) (on_fetch_failed clock (do_effect Fetch self) r)"]
      show ?thesis
        by (auto simp add: Let_def sleep_then_def split: option.splits intro: prefix_order.trans)
    next
      case True
      have "prefix (events self) (events (on_status clock (do_effect Fetch self) (or_empty r)))"
        by (simp add: on_status_events)
      with True Fetched
        Cons.IH[of "do_effect (Sleep (interval self)) (on_status clock (do_effect Fetch self) (or_empty r))"]
      show ?thesis
        by (auto simp add: Let_def sleep_then_def finalize_events split: option.splits
              intro: prefix_order.trans)
    qed
  qed
qed

lemma poll_terminal_no_notifications:
  "notify_mode self = ''terminal'' \<Longrightarrow>
     notifications (effects (snd (poll sleep_max clock self script))) = notifications (effects self)"
proof (induction script arbitrary: self)
  case Nil
  then show ?case by simp
next
  case (Cons i rest)
  show ?case
  proof (cases i)
    case Interrupt
    then show ?thesis by simp
  next
    case Interrupt_in_fetch
    then show ?thesis by simp
  next
    case (Raised_in_fetch e)
    then show ?thesis by simp
  next
    case (Fetched r)
    show ?thesis
    proof (cases "truthy r")
      case False
      with Fetched Cons.prems
        Cons.IH[of "do_effect (Sleep (interval self)) (on_fetch_failed clock (do_effect Fetch self) r)"]
      show ?thesis
        by (simp add: Let_def sleep_then_def on_fetch_failed_notifications split: option.splits)
    next
      case True
      with Fetched Cons.prems
        Cons.IH[of "do_effect (Sleep (interval self)) (on_status clock (do_effect Fetch self) (or_empty r))"]
      show ?thesis
        by (simp add: Let_def sleep_then_def on_status_notifications finalize_notifications
              split: option.splits)
    qed
  qed
qed

subsection \<open>Notifications, transitions and the marker\<close>

lemma fetches_append [simp]: "fetches (xs @ ys) = fetches xs + fetches ys"
  by (simp add: fetches_def)

lemma fetches_simps [simp]:
  "fetches [] = 0"
  "fetches (Fetch # es) = Suc (fetches es)"
  "fetches (Notify t m # es) = fetches es"
  "fetches (Print p # es) = fetches es"
  "fetches (Display d # es) = fetches es"
  "fetches (Sleep n # es) = fetches es"
  by (simp_all add: fetches_def)

lemma on_status_fetches: "fetches (effects (on_status clock self info)) = fetches (effects self)"
  by (simp add: on_status_def Let_def add_event_effects)

lemma on_fetch_failed_fetches:
  "fetches (effects (on_fetch_failed clock self r)) = fetches (effects self)"
  by (simp add: on_fetch_failed_def Let_def add_event_effects)

lemma run_truthy:
  "truthy r \<Longrightarrow>
     run sleep_max clock self (Fetched r # rest) =
       poll sleep_max clock (started clock self (or_empty r)) rest"
  by (simp add: run_def started_def Let_def)

lemma run_falsy: "\<not> truthy r \<Longrightarrow> fst (run sleep_max clock self (Fetched r # rest)) = Exited 1"
  by (simp add: run_def Let_def)

lemma started_frame [simp]:
  "interval (started clock self info) = interval self"
  "notify_mode (started clock self info) = notify_mode self"
  "notifications (effects (started clock self info)) = notifications (effects self)"
  "events (started clock self info) = events self @
     [\<lparr>timestamp = clock (length (events self)), status = get_default (buildStatus info) ''UNKNOWN'',
       message = ''Started monitoring - '' @ get_default (buildStatus info) ''UNKNOWN''\<rparr>]"
  "last_status (started clock self info) = Some (get_default (buildStatus info) ''UNKNOWN'')"
  by (simp_all add: started_def Let_def add_event_effects add_event_events add_event_last_status)

lemma run_first_event_no_notification:
  "notifications (effects (snd (run sleep_max clock self [Fetched r]))) = notifications (effects self)"
  by (cases "truthy r") (simp_all add: run_truthy, simp add: run_def Let_def)

lemma run_terminal_no_notifications:
  assumes "notify_mode self = ''terminal''"
  shows "notifications (effects (snd (run sleep_max clock self script))) = notifications (effects self)"
proof (cases script)
  case Nil
  then show ?thesis by (simp add: run_def Let_def)
next
  case (Cons i rest)
  show ?thesis
  proof (cases i)
    case Interrupt
    with Cons show ?thesis by (simp add: run_def Let_def)
  next
    case Interrupt_in_fetch
    with Cons show ?thesis by (simp add: run_def Let_def)
  next
    case (Raised_in_fetch e)
    with Cons show ?thesis by (simp add: run_def Let_def)
  next
    case (Fetched r)
    show ?thesis
    proof (cases "truthy r")
      case True
      with Cons Fetched assms show ?thesis
        by (simp add: run_truthy poll_terminal_no_notifications)
    next
      case False
      with Cons Fetched show ?thesis by (simp add: run_def Let_def)
    qed
  qed
qed

text \<open>
  Claim C2.  \<open>add_event\<close> calls the notifier exactly when the new status differs from
  the recorded one, a recorded status exists, and the notify mode is \<open>desktop\<close> or
  \<open>both\<close>; the call carries the title BuildWatchDog and the message of the event.  Hence
  nothing is sent while no status is recorded, nothing is sent for the first event that
  \<open>run\<close> records (whatever the notify mode), and with the mode \<open>terminal\<close> nothing is
  sent by \<open>add_event\<close> nor during a whole run.
\<close>

theorem add_event_notifies_exactly_when:
  "effects (add_event now st msg self) =
     effects self @
       (if Some st \<noteq> last_status self \<and> last_status self \<noteq> None \<and>
           (notify_mode self = ''desktop'' \<or> notify_mode self = ''both'')
        then [Notify ''BuildWatchDog'' msg] else [])
   \<and> (last_status self = None \<longrightarrow> effects (add_event now st msg self) = effects self)
   \<and> (notify_mode self = ''terminal'' \<longrightarrow> effects (add_event now st msg self) = effects self)
   \<and> notifications (effects (snd (run sleep_max clock self [Fetched r]))) =
       notifications (effects self)
   \<and> (notify_mode self = ''terminal'' \<longrightarrow>
        notifications (effects (snd (run sleep_max clock self script))) =
          notifications (effects self))"
  using run_first_event_no_notification run_terminal_no_notifications
  by (simp add: add_event_effects)

theorem add_event_notifies_exactly_when_witness:
  "effects (add_event (example_clock 0) ''SUCCEEDED'' ''Status changed to SUCCEEDED''
              (polling_watchdog ''desktop''))
     = [Notify ''BuildWatchDog'' ''Status changed to SUCCEEDED'']
   \<and> effects (add_event (example_clock 0) ''SUCCEEDED'' ''Status changed to SUCCEEDED''
              (new_watchdog ''demo:1234'' 10 ''both'')) = []
   \<and> effects (add_event (example_clock 0) ''SUCCEEDED'' ''Status changed to SUCCEEDED''
              (polling_watchdog ''terminal'')) = []
   \<and> notifications (effects (snd (run example_sleep_max example_clock
              (new_watchdog ''demo:1234'' 10 ''both'') [Fetched (Some in_progress_info)]))) = []
   \<and> notifications (effects (snd (run example_sleep_max example_clock
              (polling_watchdog ''terminal'')
              [Fetched (Some in_progress_info), Fetched None, Fetched (Some succeeded_info),
               Fetched (Some succeeded_info)]))) = []"
proof -
  have h1: "last_status (new_watchdog ''demo:1234'' 10 ''both'') = None"
    by (simp add: new_watchdog_def)
  have h2: "notify_mode (polling_watchdog ''terminal'') = ''terminal''"
    by (simp add: polling_watchdog_def new_watchdog_def)
  have e1: "effects (new_watchdog ''demo:1234'' 10 ''both'') = []"
    by (simp add: new_watchdog_def)
  have e2: "effects (polling_watchdog ''terminal'') = []"
    by (simp add: polling_watchdog_def new_watchdog_def)
  have e3: "effects (polling_watchdog ''desktop'') = [] \<and>
            last_status (polling_watchdog ''desktop'') = Some ''IN_PROGRESS'' \<and>
            notify_mode (polling_watchdog ''desktop'') = ''desktop''"
    by (simp add: polling_watchdog_def new_watchdog_def)
  note a = add_event_notifies_exactly_when[where self = "polling_watchdog ''desktop''"
      and now = "example_clock 0" and st = "''SUCCEEDED''"
      and msg = "''Status changed to SUCCEEDED''"]
  note b = add_event_notifies_exactly_when[where self = "new_watchdog ''demo:1234'' 10 ''both''"
      and now = "example_clock 0" and st = "''SUCCEEDED''"
      and msg = "''Status changed to SUCCEEDED''" and clock = example_clock
      and sleep_max = example_sleep_max and r = "Some in_progress_info"]
  note c = add_event_notifies_exactly_when[where self = "polling_watchdog ''terminal''"
      and now = "example_clock 0" and st = "''SUCCEEDED''"
      and msg = "''Status changed to SUCCEEDED''" and clock = example_clock
      and sleep_max = example_sleep_max
      and script = "[Fetched (Some in_progress_info), Fetched None, Fetched (Some succeeded_info),
               Fetched (Some succeeded_info)]"]
  have "effects (add_event (example_clock 0) ''SUCCEEDED'' ''Status changed to SUCCEEDED''
              (polling_watchdog ''desktop''))
     = [Notify ''BuildWatchDog'' ''Status changed to SUCCEEDED'']"
    using a e3 by simp
  moreover have "effects (add_event (example_clock 0) ''SUCCEEDED'' ''Status changed to SUCCEEDED''
              (new_watchdog ''demo:1234'' 10 ''both'')) = []"
    using b h1 e1 by simp
  moreover have "effects (add_event (example_clock 0) ''SUCCEEDED'' ''Status changed to SUCCEEDED''
              (polling_watchdog ''terminal'')) = []"
    using c h2 e2 by simp
  moreover have "notifications (effects (snd (run example_sleep_max example_clock
              (new_watchdog ''demo:1234'' 10 ''both'') [Fetched (Some in_progress_info)]))) = []"
    using b e1 by simp
  moreover have "notifications (effects (snd (run example_sleep_max example_clock
              (polling_watchdog ''terminal'')
              [Fetched (Some in_progress_info), Fetched None, Fetched (Some succeeded_info),
               Fetched (Some succeeded_info)]))) = []"
    using c h2 e2 by simp
  ultimately show ?thesis by blast
qed

text \<open>
  Claim C4.  \<open>add_event\<close> sets the last-status marker to the new status exactly when the
  new status differs from the recorded one and a recorded status exists; otherwise the
  marker keeps its value.  The notify mode plays no part.
\<close>

theorem add_event_last_status_update:
  "last_status (add_event now st msg self) =
     (if Some st \<noteq> last_status self \<and> last_status self \<noteq> None then Some st
      else last_status self)
   \<and> last_status (add_event now st msg (self\<lparr>notify_mode := mode\<rparr>)) =
       last_status (add_event now st msg self)"
  by (simp add: add_event_last_status)

theorem add_event_last_status_update_witness:
  "last_status (add_event (example_clock 0) ''SUCCEEDED'' ''Status changed to SUCCEEDED''
                  (polling_watchdog ''terminal'')) = Some ''SUCCEEDED''
   \<and> last_status (add_event (example_clock 0) ''IN_PROGRESS'' ''Status changed to IN_PROGRESS''
                  (polling_watchdog ''both'')) = Some ''IN_PROGRESS''
   \<and> last_status (add_event (example_clock 0) ''SUCCEEDED'' ''Started monitoring - SUCCEEDED''
                  (new_watchdog ''demo:1234'' 10 ''both'')) = None"
  using add_event_last_status_update[where self = "polling_watchdog ''terminal''"
          and now = "example_clock 0" and st = "''SUCCEEDED''"
          and msg = "''Status changed to SUCCEEDED''"]
        add_event_last_status_update[where self = "polling_watchdog ''both''"
          and now = "example_clock 0" and st = "''IN_PROGRESS''"
          and msg = "''Status changed to IN_PROGRESS''"]
        add_event_last_status_update[where self = "new_watchdog ''demo:1234'' 10 ''both''"
          and now = "example_clock 0" and st = "''SUCCEEDED''"
          and msg = "''Started monitoring - SUCCEEDED''"]
  by (simp add: polling_watchdog_def new_watchdog_def)

text \<open>
  Claim C3.  An iteration of the polling loop whose fetch succeeded appends the event
  \<open>Status changed to\<close> followed by the fetched status when that status differs from the
  last-status marker, and appends nothing when it equals the marker.
\<close>

theorem transition_event_iff_status_differs:
  "truthy r \<Longrightarrow>
   events (snd (poll sleep_max clock self [Fetched r])) =
     events self @
       (if Some (get_default (buildStatus (or_empty r)) ''UNKNOWN'') \<noteq> last_status self
        then [\<lparr>timestamp = clock (length (events self)),
                status = get_default (buildStatus (or_empty r)) ''UNKNOWN'',
                message = ''Status changed to '' @ get_default (buildStatus (or_empty r)) ''UNKNOWN''\<rparr>]
        else [])"
  by (simp add: Let_def sleep_then_def finalize_def on_status_events split: option.splits)

theorem transition_event_iff_status_differs_witness:
  "events (snd (poll example_sleep_max example_clock (polling_watchdog ''both'')
                  [Fetched (Some succeeded_info)]))
     = [\<lparr>timestamp = example_clock 0, status = ''SUCCEEDED'',
          message = ''Status changed to SUCCEEDED''\<rparr>]
   \<and> events (snd (poll example_sleep_max example_clock (polling_watchdog ''both'')
                  [Fetched (Some in_progress_info)]))
     = []"
proof -
  have t1: "truthy (Some succeeded_info)"
    by (simp add: truthy_def succeeded_info_def empty_info_def)
  have t2: "truthy (Some in_progress_info)"
    by (simp add: truthy_def in_progress_info_def empty_info_def)
  have w: "events (polling_watchdog ''both'') = [] \<and>
           last_status (polling_watchdog ''both'') = Some ''IN_PROGRESS''"
    by (simp add: polling_watchdog_def new_watchdog_def)
  have s1: "get_default (buildStatus (or_empty (Some succeeded_info))) ''UNKNOWN'' = ''SUCCEEDED''"
    by (simp add: or_empty_def get_default_def succeeded_info_def)
  have s2: "get_default (buildStatus (or_empty (Some in_progress_info))) ''UNKNOWN'' = ''IN_PROGRESS''"
    by (simp add: or_empty_def get_default_def in_progress_info_def)
  note a = transition_event_iff_status_differs[OF t1,
             of example_sleep_max example_clock "polling_watchdog ''both''"]
  note b = transition_event_iff_status_differs[OF t2,
             of example_sleep_max example_clock "polling_watchdog ''both''"]
  have "events (snd (poll example_sleep_max example_clock (polling_watchdog ''both'')
                  [Fetched (Some succeeded_info)]))
     = [\<lparr>timestamp = example_clock 0, status = ''SUCCEEDED'',
          message = ''Status changed to SUCCEEDED''\<rparr>]"
    unfolding a s1 using w by simp
  moreover have "events (snd (poll example_sleep_max example_clock (polling_watchdog ''both'')
                  [Fetched (Some in_progress_info)]))
     = []"
    unfolding b s2 using w by simp
  ultimately show ?thesis by blast
qed

lemma poll_failed_step:
  "\<not> truthy r \<Longrightarrow> time_sleep sleep_max (interval self) = None \<Longrightarrow>
     poll sleep_max clock self (Fetched r # rest) =
       poll sleep_max clock
         (do_effect (Sleep (interval self)) (on_fetch_failed clock (do_effect Fetch self) r)) rest"
  by (simp add: Let_def sleep_then_def)

lemma poll_one_success_notifications:
  "truthy r \<Longrightarrow>
     notifications (effects (snd (poll sleep_max clock self [Fetched r]))) =
       notifications (effects (on_status clock (do_effect Fetch self) (or_empty r)))"
  by (simp add: Let_def sleep_then_def finalize_def split: option.splits)

lemma poll_one_success_events:
  "truthy r \<Longrightarrow>
     events (snd (poll sleep_max clock self [Fetched r])) =
       events (on_status clock (do_effect Fetch self) (or_empty r))"
  by (simp add: Let_def sleep_then_def finalize_def split: option.splits)

text \<open>
  Claim C9.  Let a status other than \<open>ERROR\<close> be recorded, let a fetch fail, and let the
  loop go on to a next fetch that succeeds (\<open>time.sleep\<close> accepts the pause between
  them) with a build status that is not the word \<open>ERROR\<close>.  The failure logs an event
  with status \<open>ERROR\<close> and moves the marker to \<open>ERROR\<close>; the next fetch then logs
  \<open>Status changed to\<close> with its status, also when that status is the one recorded before
  the failure, and in the modes \<open>desktop\<close> and \<open>both\<close> both events are sent to the
  notifier.
\<close>

theorem error_marker_forces_transition:
  "last_status self = Some s0 \<Longrightarrow> s0 \<noteq> ''ERROR'' \<Longrightarrow> \<not> truthy r1 \<Longrightarrow> truthy r2 \<Longrightarrow>
   time_sleep sleep_max (interval self) = None \<Longrightarrow>
   get_default (buildStatus (or_empty r2)) ''UNKNOWN'' \<noteq> ''ERROR'' \<Longrightarrow>
   last_status (snd (poll sleep_max clock self [Fetched r1])) = Some ''ERROR''
   \<and> events (snd (poll sleep_max clock self [Fetched r1, Fetched r2])) =
       events self @
         [\<lparr>timestamp = clock (length (events self)), status = ''ERROR'',
           message = ''Failed to fetch build info''\<rparr>,
          \<lparr>timestamp = clock (Suc (length (events self))),
           status = get_default (buildStatus (or_empty r2)) ''UNKNOWN'',
           message = ''Status changed to '' @ get_default (buildStatus (or_empty r2)) ''UNKNOWN''\<rparr>]
   \<and> notifications (effects (snd (poll sleep_max clock self [Fetched r1, Fetched r2]))) =
       notifications (effects self) @
         (if notify_mode self = ''desktop'' \<or> notify_mode self = ''both''
          then [(''BuildWatchDog'', ''Failed to fetch build info''),
                (''BuildWatchDog'',
                 ''Status changed to '' @ get_default (buildStatus (or_empty r2)) ''UNKNOWN'')]
          else [])"
proof -
  assume ls: "last_status self = Some s0" and s0: "s0 \<noteq> ''ERROR''"
    and r1: "\<not> truthy r1" and r2: "truthy r2"
    and iv: "time_sleep sleep_max (interval self) = None"
    and cs: "get_default (buildStatus (or_empty r2)) ''UNKNOWN'' \<noteq> ''ERROR''"
  let ?f = "on_fetch_failed clock (do_effect Fetch self) r1"
  let ?s1 = "do_effect (Sleep (interval self)) ?f"
  have a: "last_status (snd (poll sleep_max clock self [Fetched r1])) = Some ''ERROR''"
    using ls r1 iv by (simp add: Let_def sleep_then_def on_fetch_failed_last_status)
  have step: "poll sleep_max clock self [Fetched r1, Fetched r2] =
              poll sleep_max clock ?s1 [Fetched r2]"
    using r1 iv by (rule poll_failed_step)
  have ls1: "last_status ?s1 = Some ''ERROR''"
    using ls by (simp add: on_fetch_failed_last_status)
  have ev1: "events ?s1 = events self @
         [\<lparr>timestamp = clock (length (events self)), status = ''ERROR'',
           message = ''Failed to fetch build info''\<rparr>]"
    by (simp add: on_fetch_failed_events)
  have n1: "notifications (effects ?s1) = notifications (effects self) @
         (if notify_mode self = ''desktop'' \<or> notify_mode self = ''both''
          then [(''BuildWatchDog'', ''Failed to fetch build info'')] else [])"
    using ls s0 by (auto simp add: on_fetch_failed_notifications)
  have b: "events (snd (poll sleep_max clock self [Fetched r1, Fetched r2])) =
       events self @
         [\<lparr>timestamp = clock (length (events self)), status = ''ERROR'',
           message = ''Failed to fetch build info''\<rparr>,
          \<lparr>timestamp = clock (Suc (length (events self))),
           status = get_default (buildStatus (or_empty r2)) ''UNKNOWN'',
           message = ''Status changed to '' @ get_default (buildStatus (or_empty r2)) ''UNKNOWN''\<rparr>]"
    unfolding step poll_one_success_events[OF r2]
    using cs ls1 ev1 by (simp add: on_status_events)
  have c: "notifications (effects (snd (poll sleep_max clock self [Fetched r1, Fetched r2]))) =
       notifications (effects self) @
         (if notify_mode self = ''desktop'' \<or> notify_mode self = ''both''
          then [(''BuildWatchDog'', ''Failed to fetch build info''),
                (''BuildWatchDog'',
                 ''Status changed to '' @ get_default (buildStatus (or_empty r2)) ''UNKNOWN'')]
          else [])"
    unfolding step poll_one_success_notifications[OF r2]
    using cs ls1 n1 by (simp add: on_status_notifications)
  from a b c show ?thesis by blast
qed

lemma example_pauses:
  "time_sleep example_sleep_max 10 = None" "time_sleep example_sleep_max 3 = None"
  by (simp_all add: time_sleep_def example_sleep_max_def)

theorem error_marker_forces_transition_witness:
  "last_status (snd (poll example_sleep_max example_clock (polling_watchdog ''both'')
                       [Fetched None])) = Some ''ERROR''
   \<and> events (snd (poll example_sleep_max example_clock (polling_watchdog ''both'')
                     [Fetched None, Fetched (Some in_progress_info)])) =
       [\<lparr>timestamp = example_clock 0, status = ''ERROR'',
          message = ''Failed to fetch build info''\<rparr>,
        \<lparr>timestamp = example_clock 1, status = ''IN_PROGRESS'',
          message = ''Status changed to IN_PROGRESS''\<rparr>]
   \<and> notifications (effects (snd (poll example_sleep_max example_clock (polling_watchdog ''both'')
                     [Fetched None, Fetched (Some in_progress_info)]))) =
       [(''BuildWatchDog'', ''Failed to fetch build info''),
        (''BuildWatchDog'', ''Status changed to IN_PROGRESS'')]"
proof -
  have h1: "last_status (polling_watchdog ''both'') = Some ''IN_PROGRESS''"
    by (simp add: polling_watchdog_def new_watchdog_def)
  have h2: "''IN_PROGRESS'' \<noteq> ''ERROR''" by simp
  have h3: "\<not> truthy None" by (simp add: truthy_def)
  have h4: "truthy (Some in_progress_info)"
    by (simp add: truthy_def in_progress_info_def empty_info_def)
  have h5: "time_sleep example_sleep_max (interval (polling_watchdog ''both'')) = None"
    by (simp add: polling_watchdog_def new_watchdog_def example_pauses)
  have s: "get_default (buildStatus (or_empty (Some in_progress_info))) ''UNKNOWN'' = ''IN_PROGRESS''"
    by (simp add: or_empty_def get_default_def in_progress_info_def)
  have h6: "get_default (buildStatus (or_empty (Some in_progress_info))) ''UNKNOWN'' \<noteq> ''ERROR''"
    unfolding s by simp
  have w: "events (polling_watchdog ''both'') = [] \<and> effects (polling_watchdog ''both'') = [] \<and>
           notify_mode (polling_watchdog ''both'') = ''both''"
    by (simp add: polling_watchdog_def new_watchdog_def)
  note a = error_marker_forces_transition[OF h1 h2 h3 h4 h5 h6, of example_clock]
  show ?thesis using a w unfolding s by simp
qed

subsection \<open>Terminal and other statuses, exit codes\<close>

lemma poll_terminal_step:
  "truthy r \<Longrightarrow> get_default (buildStatus (or_empty r)) ''UNKNOWN'' \<in> set terminal_statuses \<Longrightarrow>
   time_sleep sleep_max 3 = None \<Longrightarrow>
     poll sleep_max clock self (Fetched r # rest) =
       final_fetch (do_effect (Sleep 3) (on_status clock (do_effect Fetch self) (or_empty r)))
         (get_default (buildStatus (or_empty r)) ''UNKNOWN'') rest"
  by (simp add: Let_def finalize_def sleep_then_def)

lemma poll_nonterminal_step:
  "truthy r \<Longrightarrow> get_default (buildStatus (or_empty r)) ''UNKNOWN'' \<notin> set terminal_statuses \<Longrightarrow>
   time_sleep sleep_max (interval self) = None \<Longrightarrow>
     poll sleep_max clock self (Fetched r # rest) =
       poll sleep_max clock
         (do_effect (Sleep (interval self)) (on_status clock (do_effect Fetch self) (or_empty r))) rest"
  by (simp add: Let_def sleep_then_def)

lemma terminal_statuses_set:
  "set terminal_statuses = {''SUCCEEDED'', ''FAILED'', ''STOPPED'', ''FAULT'', ''TIMED_OUT''}"
  by (simp add: terminal_statuses_def)

text \<open>
  Claim C1, amended.  Let a fetch of the polling loop succeed.  If its status is one of
  SUCCEEDED, FAILED, STOPPED, FAULT and TIMED_OUT, the loop pauses three seconds and calls
  the fetcher once more.  When that call returns, the loop shows the result only if the
  fetch succeeded, prints the summary line with the status and exits with 0: two fetches
  in the iteration.  When the user interrupts during the pause, the monitor prints the
  stop notice and exits with 0 with no further fetch and no summary; when the user
  interrupts during the call, the same after the fetch was issued.  If the status is any
  other one and \<open>time.sleep\<close> accepts the interval, the loop makes no further fetch in
  that iteration, pauses for the interval and goes on polling.
\<close>

theorem poll_terminal_and_nonterminal:
  "truthy r \<Longrightarrow>
   (get_default (buildStatus (or_empty r)) ''UNKNOWN''
      \<in> {''SUCCEEDED'', ''FAILED'', ''STOPPED'', ''FAULT'', ''TIMED_OUT''} \<and>
    time_sleep sleep_max 3 = None \<longrightarrow>
      fst (poll sleep_max clock self (Fetched r # Fetched final # rest)) = Exited 0
      \<and> effects (snd (poll sleep_max clock self (Fetched r # Fetched final # rest))) =
          effects (on_status clock (do_effect Fetch self) (or_empty r)) @ [Sleep 3, Fetch] @
          (if truthy final
           then [Display (create_display
                   (do_effect Fetch (do_effect (Sleep 3)
                      (on_status clock (do_effect Fetch self) (or_empty r))))
                   (or_empty final))]
           else []) @
          [Print (CHR 0x0A # ''[bold]Build '' @ get_default (buildStatus (or_empty r)) ''UNKNOWN''
                    @ ''![/bold]'')]
      \<and> fetches (effects (snd (poll sleep_max clock self (Fetched r # Fetched final # rest)))) =
          fetches (effects self) + 2
      \<and> fst (poll sleep_max clock self (Fetched r # Interrupt # rest)) = Exited 0
      \<and> effects (snd (poll sleep_max clock self (Fetched r # Interrupt # rest))) =
          effects (on_status clock (do_effect Fetch self) (or_empty r)) @
          [Sleep 3, Print (CHR 0x0A # ''[yellow]Monitoring stopped by user.[/yellow]'')]
      \<and> fst (poll sleep_max clock self (Fetched r # Interrupt_in_fetch # rest)) = Exited 0
      \<and> effects (snd (poll sleep_max clock self (Fetched r # Interrupt_in_fetch # rest))) =
          effects (on_status clock (do_effect Fetch self) (or_empty r)) @
          [Sleep 3, Fetch, Print (CHR 0x0A # ''[yellow]Monitoring stopped by user.[/yellow]'')])
   \<and> (get_default (buildStatus (or_empty r)) ''UNKNOWN''
        \<notin> {''SUCCEEDED'', ''FAILED'', ''STOPPED'', ''FAULT'', ''TIMED_OUT''} \<and>
      time_sleep sleep_max (interval self) = None \<longrightarrow>
      poll sleep_max clock self (Fetched r # rest) =
        poll sleep_max clock
          (do_effect (Sleep (interval self))
             (on_status clock (do_effect Fetch self) (or_empty r))) rest
      \<and> effects (do_effect (Sleep (interval self))
                   (on_status clock (do_effect Fetch self) (or_empty r))) =
          effects (on_status clock (do_effect Fetch self) (or_empty r)) @ [Sleep (interval self)]
      \<and> fetches (effects (do_effect (Sleep (interval self))
                      (on_status clock (do_effect Fetch self) (or_empty r)))) =
          fetches (effects self) + 1)"
proof (intro conjI impI)
  assume t: "truthy r"
  let ?cs = "get_default (buildStatus (or_empty r)) ''UNKNOWN''"
  let ?S = "on_status clock (do_effect Fetch self) (or_empty r)"
  {
    assume h: "?cs \<in> {''SUCCEEDED'', ''FAILED'', ''STOPPED'', ''FAULT'', ''TIMED_OUT''} \<and>
               time_sleep sleep_max 3 = None"
    then have m: "?cs \<in> set terminal_statuses" and p: "time_sleep sleep_max 3 = None"
      unfolding terminal_statuses_set by blast+
    note st = poll_terminal_step[OF t m p]
    show "fst (poll sleep_max clock self (Fetched r # Fetched final # rest)) = Exited 0"
      unfolding st by (simp add: Let_def)
    show "effects (snd (poll sleep_max clock self (Fetched r # Fetched final # rest))) =
          effects ?S @ [Sleep 3, Fetch] @
          (if truthy final
           then [Display (create_display (do_effect Fetch (do_effect (Sleep 3) ?S)) (or_empty final))]
           else []) @
          [Print (CHR 0x0A # ''[bold]Build '' @ ?cs @ ''![/bold]'')]"
      unfolding st by (simp add: Let_def)
    show "fetches (effects (snd (poll sleep_max clock self (Fetched r # Fetched final # rest)))) =
          fetches (effects self) + 2"
      unfolding st by (simp add: Let_def on_status_fetches)
    show "fst (poll sleep_max clock self (Fetched r # Interrupt # rest)) = Exited 0"
      unfolding st by simp
    show "effects (snd (poll sleep_max clock self (Fetched r # Interrupt # rest))) =
          effects ?S @ [Sleep 3, Print (CHR 0x0A # ''[yellow]Monitoring stopped by user.[/yellow]'')]"
      unfolding st by (simp add: interrupted_def)
    show "fst (poll sleep_max clock self (Fetched r # Interrupt_in_fetch # rest)) = Exited 0"
      unfolding st by simp
    show "effects (snd (poll sleep_max clock self (Fetched r # Interrupt_in_fetch # rest))) =
          effects ?S @
          [Sleep 3, Fetch, Print (CHR 0x0A # ''[yellow]Monitoring stopped by user.[/yellow]'')]"
      unfolding st by (simp add: interrupted_def)
  }
  {
    assume h: "?cs \<notin> {''SUCCEEDED'', ''FAILED'', ''STOPPED'', ''FAULT'', ''TIMED_OUT''} \<and>
               time_sleep sleep_max (interval self) = None"
    then have m: "?cs \<notin> set terminal_statuses" and p: "time_sleep sleep_max (interval self) = None"
      unfolding terminal_statuses_set by blast+
    show "poll sleep_max clock self (Fetched r # rest) =
        poll sleep_max clock (do_effect (Sleep (interval self)) ?S) rest"
      using t m p by (rule poll_nonterminal_step)
    show "effects (do_effect (Sleep (interval self)) ?S) = effects ?S @ [Sleep (interval self)]"
      by simp
    show "fetches (effects (do_effect (Sleep (interval self)) ?S)) = fetches (effects self) + 1"
      by (simp add: on_status_fetches)
  }
qed

lemma status_info_simps:
  "truthy (Some (status_info s))"
  "get_default (buildStatus (or_empty (Some (status_info s)))) ''UNKNOWN'' = s"
  by (simp_all add: truthy_def status_info_def in_progress_info_def empty_info_def
        or_empty_def get_default_def)

theorem poll_terminal_and_nonterminal_witness:
  "fst (poll example_sleep_max example_clock (polling_watchdog ''both'')
          [Fetched (Some (status_info ''SUCCEEDED'')), Fetched None]) = Exited 0
   \<and> fst (poll example_sleep_max example_clock (polling_watchdog ''both'')
          [Fetched (Some (status_info ''FAILED'')), Fetched None]) = Exited 0
   \<and> fst (poll example_sleep_max example_clock (polling_watchdog ''both'')
          [Fetched (Some (status_info ''STOPPED'')), Fetched None]) = Exited 0
   \<and> fst (poll example_sleep_max example_clock (polling_watchdog ''both'')
          [Fetched (Some (status_info ''FAULT'')), Fetched None]) = Exited 0
   \<and> fst (poll example_sleep_max example_clock (polling_watchdog ''both'')
          [Fetched (Some (status_info ''TIMED_OUT'')), Fetched None]) = Exited 0
   \<and> fetches (effects (snd (poll example_sleep_max example_clock (polling_watchdog ''both'')
          [Fetched (Some (status_info ''TIMED_OUT'')), Fetched None]))) = 2
   \<and> fetches (effects (snd (poll example_sleep_max example_clock (polling_watchdog ''both'')
          [Fetched (Some (status_info ''FAILED'')), Interrupt]))) = 1
   \<and> fetches (effects (snd (poll example_sleep_max example_clock (polling_watchdog ''both'')
          [Fetched (Some (status_info ''FAILED'')), Interrupt_in_fetch]))) = 2
   \<and> fst (poll example_sleep_max example_clock (polling_watchdog ''both'')
          [Fetched (Some (status_info ''IN_PROGRESS''))]) = Waiting
   \<and> fst (poll example_sleep_max example_clock (polling_watchdog ''both'')
          [Fetched (Some (status_info ''QUEUED''))]) = Waiting
   \<and> fetches (effects (snd (poll example_sleep_max example_clock (polling_watchdog ''both'')
          [Fetched (Some (status_info ''QUEUED''))]))) = 1"
proof -
  let ?W = "polling_watchdog ''both''"
  have w: "fetches (effects ?W) = 0" "interval ?W = 10"
    by (simp_all add: polling_watchdog_def new_watchdog_def)
  have p3: "time_sleep example_sleep_max 3 = None" by (rule example_pauses)
  have p10: "time_sleep example_sleep_max (interval ?W) = None"
    by (simp add: w example_pauses)
  note th = poll_terminal_and_nonterminal[OF status_info_simps(1),
              of _ example_sleep_max example_clock ?W, unfolded status_info_simps(2)]
  have fin: "fst (poll example_sleep_max example_clock ?W [Fetched (Some (status_info s)), Fetched None])
                = Exited 0
              \<and> fetches (effects (snd (poll example_sleep_max example_clock ?W
                   [Fetched (Some (status_info s)), Fetched None]))) = 2
              \<and> fetches (effects (snd (poll example_sleep_max example_clock ?W
                   [Fetched (Some (status_info s)), Interrupt]))) = 1
              \<and> fetches (effects (snd (poll example_sleep_max example_clock ?W
                   [Fetched (Some (status_info s)), Interrupt_in_fetch]))) = 2"
    if "s \<in> {''SUCCEEDED'', ''FAILED'', ''STOPPED'', ''FAULT'', ''TIMED_OUT''}" for s
  proof -
    from th[of s None "[]"] that p3
    have a: "fst (poll example_sleep_max example_clock ?W
                    [Fetched (Some (status_info s)), Fetched None]) = Exited 0"
      and b: "fetches (effects (snd (poll example_sleep_max example_clock ?W
                    [Fetched (Some (status_info s)), Fetched None]))) = fetches (effects ?W) + 2"
      and c: "effects (snd (poll example_sleep_max example_clock ?W
                    [Fetched (Some (status_info s)), Interrupt])) =
                effects (on_status example_clock (do_effect Fetch ?W) (or_empty (Some (status_info s)))) @
                [Sleep 3, Print (CHR 0x0A # ''[yellow]Monitoring stopped by user.[/yellow]'')]"
      and d: "effects (snd (poll example_sleep_max example_clock ?W
                    [Fetched (Some (status_info s)), Interrupt_in_fetch])) =
                effects (on_status example_clock (do_effect Fetch ?W) (or_empty (Some (status_info s)))) @
                [Sleep 3, Fetch, Print (CHR 0x0A # ''[yellow]Monitoring stopped by user.[/yellow]'')]"
      by blast+
    show ?thesis using a b w unfolding c d by (simp add: on_status_fetches)
  qed
  have non: "fst (poll example_sleep_max example_clock ?W [Fetched (Some (status_info s))]) = Waiting
             \<and> fetches (effects (snd (poll example_sleep_max example_clock ?W
                  [Fetched (Some (status_info s))]))) = 1"
    if "s \<notin> {''SUCCEEDED'', ''FAILED'', ''STOPPED'', ''FAULT'', ''TIMED_OUT''}" for s
  proof -
    from th[of s None "[]"] that p10
    have a: "poll example_sleep_max example_clock ?W [Fetched (Some (status_info s))] =
             poll example_sleep_max example_clock
               (do_effect (Sleep (interval ?W))
                  (on_status example_clock (do_effect Fetch ?W) (or_empty (Some (status_info s))))) []"
      and b: "fetches (effects (do_effect (Sleep (interval ?W))
                  (on_status example_clock (do_effect Fetch ?W) (or_empty (Some (status_info s)))))) =
              fetches (effects ?W) + 1"
      by blast+
    show ?thesis unfolding a using b w by simp
  qed
  from fin[of "''SUCCEEDED''"] fin[of "''FAILED''"] fin[of "''STOPPED''"] fin[of "''FAULT''"]
       fin[of "''TIMED_OUT''"] non[of "''IN_PROGRESS''"] non[of "''QUEUED''"]
  show ?thesis by simp
qed

text \<open>
  Claim C1, as it stands, fails in three runs.  In the first the build is seen to have
  SUCCEEDED and the user interrupts during the pause that follows: the monitor exits with
  0 after two fetches (the first of \<open>run\<close> and the one of the loop), with no further fetch
  and no summary line.  In the second the interrupt comes during the further fetch: three
  fetches and no summary line.  In the third the interval is \<open>-1\<close>: after a fetch that
  shows IN_PROGRESS the pause raises \<open>ValueError\<close>, and the third fetch never happens.
\<close>

theorem finalizing_interrupted_counterexample:
  "fst (main example_sleep_max example_clock (example_args 10 ''both'')
          [Fetched (Some in_progress_info), Fetched (Some succeeded_info), Interrupt]) = Exited 0
   \<and> fetches (effects (snd (main example_sleep_max example_clock (example_args 10 ''both'')
          [Fetched (Some in_progress_info), Fetched (Some succeeded_info), Interrupt]))) = 2
   \<and> Print (CHR 0x0A # ''[bold]Build SUCCEEDED![/bold]'') \<notin>
       set (effects (snd (main example_sleep_max example_clock (example_args 10 ''both'')
          [Fetched (Some in_progress_info), Fetched (Some succeeded_info), Interrupt])))
   \<and> fetches (effects (snd (main example_sleep_max example_clock (example_args 10 ''both'')
          [Fetched (Some in_progress_info), Fetched (Some succeeded_info), Interrupt_in_fetch]))) = 3
   \<and> Print (CHR 0x0A # ''[bold]Build SUCCEEDED![/bold]'') \<notin>
       set (effects (snd (main example_sleep_max example_clock (example_args 10 ''both'')
          [Fetched (Some in_progress_info), Fetched (Some succeeded_info), Interrupt_in_fetch])))
   \<and> fst (main example_sleep_max example_clock (example_args (- 1) ''both'')
          [Fetched (Some in_progress_info), Fetched (Some in_progress_info),
           Fetched (Some in_progress_info)]) = Uncaught ValueError
   \<and> fetches (effects (snd (main example_sleep_max example_clock (example_args (- 1) ''both'')
          [Fetched (Some in_progress_info), Fetched (Some in_progress_info),
           Fetched (Some in_progress_info)]))) = 2"
  by code_simp

text \<open>
  Exit codes of a run in which \<open>time.sleep\<close> accepts the interval and the three seconds
  and every fetch returns: the run exits with 1 exactly when the first fetch gives
  nothing; a later fetch that gives nothing is logged and the loop goes on
  (\<open>poll_failed_step\<close>); an interrupt ends the run with 0.
\<close>

lemma run_exit_code_1:
  assumes "time_sleep sleep_max (interval self) = None" and "time_sleep sleep_max 3 = None"
    and "\<forall>e. Raised_in_fetch e \<notin> set rest"
  shows "exit_code (fst (run sleep_max clock self (Fetched r # rest))) = Some 1 \<longleftrightarrow> \<not> truthy r"
proof (cases "truthy r")
  case False
  then show ?thesis by (simp add: run_falsy)
next
  case True
  from assms(1) have "time_sleep sleep_max (interval (started clock self (or_empty r))) = None"
    by simp
  from poll_result[OF this assms(2) assms(3), of clock] True show ?thesis
    by (auto simp add: run_truthy)
qed

lemma poll_interrupt_exits_0:
  "time_sleep sleep_max (interval self) = None \<Longrightarrow> time_sleep sleep_max 3 = None \<Longrightarrow>
   \<forall>e. Raised_in_fetch e \<notin> set script \<Longrightarrow>
   Interrupt \<in> set script \<or> Interrupt_in_fetch \<in> set script \<Longrightarrow>
     fst (poll sleep_max clock self script) = Exited 0"
proof (induction script arbitrary: self)
  case Nil
  then show ?case by simp
next
  case (Cons i rest)
  from Cons.prems have nr: "\<forall>e. Raised_in_fetch e \<notin> set rest" by simp
  show ?case
  proof (cases i)
    case Interrupt
    then show ?thesis by simp
  next
    case Interrupt_in_fetch
    then show ?thesis by simp
  next
    case (Raised_in_fetch e)
    with Cons.prems show ?thesis by auto
  next
    case (Fetched r)
    with Cons.prems have mem: "Interrupt \<in> set rest \<or> Interrupt_in_fetch \<in> set rest" by simp
    then have ne: "rest \<noteq> []" by auto
    show ?thesis
    proof (cases "truthy r")
      case False
      with Fetched Cons.prems mem nr
        Cons.IH[of "do_effect (Sleep (interval self)) (on_fetch_failed clock (do_effect Fetch self) r)"]
      show ?thesis by (simp add: Let_def sleep_then_def)
    next
      case True
      with Fetched Cons.prems mem ne nr
        Cons.IH[of "do_effect (Sleep (interval self)) (on_status clock (do_effect Fetch self) (or_empty r))"]
      show ?thesis by (simp add: Let_def sleep_then_def finalize_result)
    qed
  qed
qed

text \<open>
  Claim C6 at the command line \<open>--build-id demo:1234 --interval -1\<close>: the first fetch
  succeeds, the second gives nothing, and the pause after it raises \<open>ValueError\<close>, which
  \<open>run\<close> does not catch.  The process ends with a traceback and exit code 1, and the
  third fetch is never made.
\<close>

theorem negative_interval_failed_fetch_is_fatal:
  "truthy (Some in_progress_info)
   \<and> fst (main example_sleep_max example_clock (example_args (- 1) ''both'')
          [Fetched (Some in_progress_info), Fetched None, Fetched (Some in_progress_info)])
       = Uncaught ValueError
   \<and> exit_code (fst (main example_sleep_max example_clock (example_args (- 1) ''both'')
          [Fetched (Some in_progress_info), Fetched None, Fetched (Some in_progress_info)]))
       = Some 1
   \<and> fetches (effects (snd (main example_sleep_max example_clock (example_args (- 1) ''both'')
          [Fetched (Some in_progress_info), Fetched None, Fetched (Some in_progress_info)]))) = 2"
  by code_simp

section \<open>Properties of the dashboard\<close>

lemma resolve_phase_status_spec: "resolve_phase_status overall ph = spec_phase_status overall ph"
  by (cases "phaseStatus ph"; cases "phaseType ph")
     (auto simp: resolve_phase_status_def spec_phase_status_def phase_name_of_def get_default_def)

lemma shown_status_phase_row: "shown_status (phase_row overall ph) = Some (spec_phase_status overall ph)"
  by (simp add: phase_row_def Let_def split_def resolve_phase_status_spec)

lemma timeline_create_display:
  "phases info = Some phs \<Longrightarrow> phs \<noteq> [] \<Longrightarrow>
     timeline (create_display self info) = map (phase_row (get_default (buildStatus info) ''UNKNOWN'')) phs"
  by (simp add: create_display_def Let_def get_default_def)

text \<open>
  Claim C5.  The dashboard has one row for each phase, in order, and the status shown in
  the row follows the policy of the specification: the phase's own status when present;
  else succeeded for a phase named COMPLETED under a build that SUCCEEDED; else pending.
  So a COMPLETED phase without status is shown as succeeded (green check) under a build
  that SUCCEEDED and as pending (dim circle) under a build that is IN_PROGRESS.
\<close>

theorem phase_status_resolution:
  "phases info = Some phs \<Longrightarrow> phs \<noteq> [] \<Longrightarrow>
   map shown_status (timeline (create_display self info)) =
     map (\<lambda>ph. Some (spec_phase_status (get_default (buildStatus info) ''UNKNOWN'') ph)) phs
   \<and> (\<forall>i < length phs.
        phaseType (phs ! i) = Some ''COMPLETED'' \<and> \<not> status_present (phs ! i) \<longrightarrow>
        (buildStatus info = Some ''SUCCEEDED'' \<longrightarrow>
           timeline (create_display self info) ! i =
             Phase_row Check_green ''COMPLETED'' ''SUCCEEDED'' ''green'') \<and>
        (buildStatus info = Some ''IN_PROGRESS'' \<longrightarrow>
           timeline (create_display self info) ! i =
             Phase_row Circle_dim ''COMPLETED'' ''PENDING'' ''dim''))"
proof -
  assume ph: "phases info = Some phs" and ne: "phs \<noteq> []"
  note tl = timeline_create_display[OF ph ne]
  have a: "map shown_status (timeline (create_display self info)) =
     map (\<lambda>ph. Some (spec_phase_status (get_default (buildStatus info) ''UNKNOWN'') ph)) phs"
    by (simp add: tl shown_status_phase_row)
  have b: "timeline (create_display self info) ! i =
             Phase_row Check_green ''COMPLETED'' ''SUCCEEDED'' ''green''"
    if "i < length phs" "phaseType (phs ! i) = Some ''COMPLETED''" "\<not> status_present (phs ! i)"
       "buildStatus info = Some ''SUCCEEDED''" for i
    using that
    by (auto simp: tl phase_row_def Let_def resolve_phase_status_def phase_icon_style_def
          phase_name_of_def get_default_def status_present_def split: option.splits)
  have c: "timeline (create_display self info) ! i =
             Phase_row Circle_dim ''COMPLETED'' ''PENDING'' ''dim''"
    if "i < length phs" "phaseType (phs ! i) = Some ''COMPLETED''" "\<not> status_present (phs ! i)"
       "buildStatus info = Some ''IN_PROGRESS''" for i
    using that
    by (auto simp: tl phase_row_def Let_def resolve_phase_status_def phase_icon_style_def
          phase_name_of_def get_default_def status_present_def split: option.splits)
  from a b c show ?thesis by blast
qed

theorem phase_status_resolution_witness:
  "map shown_status (timeline (create_display (new_watchdog ''demo:1234'' 10 ''both'') succeeded_info))
     = [Some ''SUCCEEDED'', Some ''SUCCEEDED'']
   \<and> timeline (create_display (new_watchdog ''demo:1234'' 10 ''both'') succeeded_info) ! 1
     = Phase_row Check_green ''COMPLETED'' ''SUCCEEDED'' ''green''
   \<and> timeline (create_display (new_watchdog ''demo:1234'' 10 ''both'')
        (succeeded_info\<lparr>buildStatus := Some ''IN_PROGRESS''\<rparr>)) ! 1
     = Phase_row Circle_dim ''COMPLETED'' ''PENDING'' ''dim''"
proof -
  let ?phs = "[\<lparr>phaseType = Some ''BUILD'', phaseStatus = Some ''SUCCEEDED''\<rparr>,
               \<lparr>phaseType = Some ''COMPLETED'', phaseStatus = None\<rparr>]"
  have h1: "phases succeeded_info = Some ?phs" by (simp add: succeeded_info_def)
  have h1': "phases (succeeded_info\<lparr>buildStatus := Some ''IN_PROGRESS''\<rparr>) = Some ?phs"
    by (simp add: succeeded_info_def)
  have h2: "?phs \<noteq> []" by simp
  have h3: "(1::nat) < length ?phs \<and> phaseType (?phs ! 1) = Some ''COMPLETED'' \<and>
            \<not> status_present (?phs ! 1)"
    by (simp add: status_present_def)
  have h4: "buildStatus succeeded_info = Some ''SUCCEEDED''" by (simp add: succeeded_info_def)
  have h4': "buildStatus (succeeded_info\<lparr>buildStatus := Some ''IN_PROGRESS''\<rparr>) = Some ''IN_PROGRESS''"
    by simp
  have s: "map (\<lambda>ph. Some (spec_phase_status (get_default (buildStatus succeeded_info) ''UNKNOWN'') ph)) ?phs
           = [Some ''SUCCEEDED'', Some ''SUCCEEDED'']"
    by (simp add: spec_phase_status_def get_default_def succeeded_info_def)
  from phase_status_resolution[OF h1 h2, of "new_watchdog ''demo:1234'' 10 ''both''"]
       phase_status_resolution[OF h1' h2, of "new_watchdog ''demo:1234'' 10 ''both''"] h3 h4 h4' s
  show ?thesis by (metis (no_types, lifting))
qed

lemma rev_take_rev: "rev (take n (rev xs)) = drop (length xs - n) xs"
  by (simp add: rev_take)

lemma run_events_prefix:
  "prefix (events self) (events (snd (run sleep_max clock self script)))"
proof (cases script)
  case Nil
  then show ?thesis by (simp add: run_def Let_def)
next
  case (Cons i rest)
  show ?thesis
  proof (cases i)
    case Interrupt
    with Cons show ?thesis by (simp add: run_def Let_def)
  next
    case Interrupt_in_fetch
    with Cons show ?thesis by (simp add: run_def Let_def)
  next
    case (Raised_in_fetch e)
    with Cons show ?thesis by (simp add: run_def Let_def)
  next
    case (Fetched r)
    show ?thesis
    proof (cases "truthy r")
      case True
      have "prefix (events (started clock self (or_empty r)))
              (events (snd (poll sleep_max clock (started clock self (or_empty r)) rest)))"
        by (rule poll_events_prefix)
      then have "prefix (events self)
              (events (snd (poll sleep_max clock (started clock self (or_empty r)) rest)))"
        by (simp add: append_prefixD)
      with Cons Fetched True show ?thesis by (simp add: run_truthy)
    next
      case False
      with Cons Fetched show ?thesis by (simp add: run_def Let_def)
    qed
  qed
qed

text \<open>
  Claim C8.  The table of recent events never has more than eight rows.  When events have
  been logged, its rows are the last eight of them (all of them when there are fewer),
  oldest first, each row holding the time of day of the event as hours, minutes and
  seconds and the message of the event; so there are exactly eight rows once more than
  eight events are logged.  With no event the table has the one placeholder row.  The
  list of events itself only grows: \<open>add_event\<close> appends one event, and the events a
  monitor holds are still there, at the front and in order, after any further polling and
  after a run.
\<close>

theorem event_table_last_eight:
  "length (event_table (create_display self info)) \<le> 8
   \<and> (events self = [] \<longrightarrow> event_table (create_display self info) = [No_events_yet])
   \<and> (events self \<noteq> [] \<longrightarrow>
        event_table (create_display self info) =
          map (\<lambda>event. Event_row
                 (two_digits (hour (timestamp event)) @ '':'' @
                  two_digits (minute (timestamp event)) @ '':'' @
                  two_digits (second (timestamp event)))
                 (message event))
            (rev (take 8 (rev (events self)))))
   \<and> (8 < length (events self) \<longrightarrow> length (event_table (create_display self info)) = 8)
   \<and> events (add_event now st msg self) =
        events self @ [\<lparr>timestamp = now, status = st, message = msg\<rparr>]
   \<and> prefix (events self) (events (snd (poll sleep_max clock self script)))
   \<and> prefix (events self) (events (snd (run sleep_max clock self script)))"
proof -
  have e: "event_row_of = (\<lambda>event. Event_row
                 (two_digits (hour (timestamp event)) @ '':'' @
                  two_digits (minute (timestamp event)) @ '':'' @
                  two_digits (second (timestamp event)))
                 (message event))"
    by (rule ext) (simp add: event_row_of_def strftime_HMS_def)
  show ?thesis
    using poll_events_prefix run_events_prefix
    by (auto simp add: create_display_def Let_def last8_def rev_take_rev add_event_events e)
qed

theorem event_table_last_eight_witness:
  "length (events busy_watchdog) = 9
   \<and> event_table (create_display busy_watchdog in_progress_info) =
       [Event_row ''12:00:10'' ''Failed to fetch build info'',
        Event_row ''12:00:20'' ''Status changed to IN_PROGRESS'',
        Event_row ''12:00:30'' ''Failed to fetch build info'',
        Event_row ''12:00:40'' ''Status changed to IN_PROGRESS'',
        Event_row ''12:00:50'' ''Failed to fetch build info'',
        Event_row ''12:01:00'' ''Status changed to IN_PROGRESS'',
        Event_row ''12:01:10'' ''Status changed to STOPPED'',
        Event_row ''12:01:23'' ''Failed to fetch build info'']
   \<and> event_table (create_display (new_watchdog ''demo:1234'' 10 ''both'') in_progress_info) =
       [No_events_yet]"
proof -
  have ev: "events busy_watchdog = nine_events"
    by (simp add: busy_watchdog_def new_watchdog_def)
  have h1: "events busy_watchdog \<noteq> []"
    by (simp add: ev nine_events_def)
  have h2: "length (events busy_watchdog) = 9"
    by (simp add: ev nine_events_def)
  have h0: "events (new_watchdog ''demo:1234'' 10 ''both'') = []"
    by (simp add: new_watchdog_def)
  have rows: "map (\<lambda>event. Event_row
                 (two_digits (hour (timestamp event)) @ '':'' @
                  two_digits (minute (timestamp event)) @ '':'' @
                  two_digits (second (timestamp event)))
                 (message event))
            (rev (take 8 (rev (events busy_watchdog)))) =
       [Event_row ''12:00:10'' ''Failed to fetch build info'',
        Event_row ''12:00:20'' ''Status changed to IN_PROGRESS'',
        Event_row ''12:00:30'' ''Failed to fetch build info'',
        Event_row ''12:00:40'' ''Status changed to IN_PROGRESS'',
        Event_row ''12:00:50'' ''Failed to fetch build info'',
        Event_row ''12:01:00'' ''Status changed to IN_PROGRESS'',
        Event_row ''12:01:10'' ''Status changed to STOPPED'',
        Event_row ''12:01:23'' ''Failed to fetch build info'']"
    unfolding ev by code_simp
  from event_table_last_eight[of busy_watchdog in_progress_info] h1
  have a: "event_table (create_display busy_watchdog in_progress_info) =
          map (\<lambda>event. Event_row
                 (two_digits (hour (timestamp event)) @ '':'' @
                  two_digits (minute (timestamp event)) @ '':'' @
                  two_digits (second (timestamp event)))
                 (message event))
            (rev (take 8 (rev (events busy_watchdog))))"
    by blast
  from event_table_last_eight[of "new_watchdog ''demo:1234'' 10 ''both''" in_progress_info] h0
  have b: "event_table (create_display (new_watchdog ''demo:1234'' 10 ''both'') in_progress_info) =
       [No_events_yet]"
    by blast
  show ?thesis using a b h2 unfolding rows by simp
qed

end
